(* ===== verification/Lanyard_Prelude.thy ===== *)
theory Lanyard_Prelude
  imports Complex_Main "HOL-Library.Sublist"
begin

text \<open>
  Shared material of the development: the collections of facts the component
  theories add to, the names of the model's base types, and the generic lemmas on
  lists and options that the component proofs rely on.

  \<^item> \<open>js_defs\<close> collects the defining equations of the JavaScript primitives
    (optional chaining, \<open>||\<close>, template literals, array reads), \<open>lp_defs\<close> those of
    the widget's own operations; a proof unfolds a whole layer with
    \<open>simp add: js_defs\<close> or \<open>simp add: lp_defs\<close>.
  \<^item> \<open>jsstring\<close> is the type of JavaScript strings. A JavaScript string is a
    sequence of 16-bit code units; the model uses \<open>char list\<close>, that is code units
    below 256. The string functions are stated over \<open>'a list\<close>, so every lemma
    about them holds for any type of code unit.
  \<^item> \<open>jsnumber\<close> is the type of JavaScript numbers. A number that JSON can carry
    is a finite double, hence a real number; the widget compares an activity's
    type code with 4 and writes the opacities 1 and 0.5, and computes nothing.
\<close>

named_theorems js_defs "defining equations of the JavaScript primitives"
named_theorems lp_defs "defining equations of the widget's operations"

type_synonym jsstring = string
type_synonym jsnumber = real

section \<open>Occurrences of a pattern in a list\<close>

text \<open>
  \<open>occurs_at p s i\<close>: the pattern \<open>p\<close> occurs in \<open>s\<close> at position \<open>i\<close>. The
  search functions of the string theory are specified with it.
\<close>

definition occurs_at :: "'a list \<Rightarrow> 'a list \<Rightarrow> nat \<Rightarrow> bool" where
  "occurs_at p s i \<longleftrightarrow> prefix p (drop i s)"

lemma occurs_at_0 [simp]: "occurs_at p s 0 \<longleftrightarrow> prefix p s"
  by (simp add: occurs_at_def)

lemma occurs_at_Suc [simp]: "occurs_at p (c # s) (Suc i) \<longleftrightarrow> occurs_at p s i"
  by (simp add: occurs_at_def)

lemma occurs_at_Nil [simp]: "occurs_at p [] i \<longleftrightarrow> p = []"
  by (simp add: occurs_at_def)

lemma occurs_at_bound:
  assumes "occurs_at p s i" and "p \<noteq> []"
  shows "i + length p \<le> length s"
proof -
  from assms(1) have "length p \<le> length s - i"
    by (auto simp: occurs_at_def dest: prefix_length_le)
  moreover from assms(2) have "0 < length p" by simp
  ultimately show ?thesis by arith
qed

lemma occurs_at_take: "occurs_at p (take n s) k \<Longrightarrow> occurs_at p s k"
  unfolding occurs_at_def drop_take
  by (blast intro: prefix_order.trans take_is_prefix)

lemma occurs_at_append: "occurs_at p (a @ p @ b) (length a)"
  by (simp add: occurs_at_def)

lemma occurs_at_sublist: "occurs_at p s i \<Longrightarrow> sublist p s"
  unfolding occurs_at_def prefix_def sublist_def
  by (metis append_take_drop_id)

lemma sublist_occurs_at: "sublist p s \<Longrightarrow> \<exists>i. occurs_at p s i"
  unfolding sublist_def by (auto intro: occurs_at_append)

lemma sublist_iff_occurs: "sublist p s \<longleftrightarrow> (\<exists>i. occurs_at p s i)"
  by (blast intro: occurs_at_sublist dest: sublist_occurs_at)

section \<open>Lists\<close>

lemma prefix_drop_length: "prefix p s \<Longrightarrow> p @ drop (length p) s = s"
  by (auto simp: prefix_def)

lemma drop_shorter: "xs \<noteq> [] \<Longrightarrow> 0 < n \<Longrightarrow> length (drop n xs) < length xs"
  by (cases xs) auto

text \<open>The progress of a scan that skips a nonempty pattern.\<close>

lemma skip_pattern_less:
  "R \<noteq> [] \<Longrightarrow> i \<le> a \<Longrightarrow> a + length R \<le> n \<Longrightarrow> n - (a + length R) < n - i"
  by (cases R) auto

text \<open>An identifier above all identifiers in use is not in use.\<close>

lemma fresh_above: "\<forall>i \<in> set xs. i < n \<Longrightarrow> (n::nat) \<notin> set xs"
  by auto

lemma distinct_below_length:
  assumes "distinct xs" and "\<forall>i \<in> set xs. i < (n::nat)"
  shows "length xs \<le> n"
proof -
  from assms(2) have "set xs \<subseteq> {..<n}" by auto
  then have "card (set xs) \<le> card {..<n}" by (intro card_mono) simp_all
  with assms(1) show ?thesis by (simp add: distinct_card)
qed

lemma find_first_match:
  "find P xs = Some x \<Longrightarrow> \<exists>i < length xs. xs ! i = x \<and> P x \<and> (\<forall>j < i. \<not> P (xs ! j))"
  by (auto simp: find_Some_iff)

end
