(* ===== verification/JS_Value.thy ===== *)
theory JS_Value
  imports Lanyard_Prelude
begin

text \<open>
  The JavaScript value operations that the widget's code applies to the payload:
  optional and nullable values, truthiness, the \<open>||\<close> operator, string conversion
  inside template literals, and array reads.

  A TypeScript member \<open>f?: T\<close> (type \<open>T | undefined\<close>) is a value of type
  \<open>T option\<close>, with \<open>None\<close> for \<open>undefined\<close>; a member of type \<open>T | null\<close> is a
  value of type \<open>T nullable\<close>. Optional chaining \<open>x?.f\<close> on an optional \<open>x\<close> is
  \<open>map_option f x\<close> when \<open>f\<close> is a required member and \<open>Option.bind x f\<close> when \<open>f\<close>
  is optional itself; on a nullable \<open>x\<close> it is \<open>chain_null x f\<close>. In each case a
  missing receiver gives \<open>undefined\<close>, never an exception.
\<close>

section \<open>Exceptions\<close>

text \<open>
  What the body of \<open>fetchUserData\<close> can throw: the promise of \<open>fetch\<close> rejects,
  the promise of \<open>res.json()\<close> rejects, or a member of \<open>undefined\<close> is read, which
  raises a \<open>TypeError\<close>. An operation that can throw returns \<open>js_error + 'a\<close>.
\<close>

datatype js_error = FetchRejected | JsonRejected | TypeError

section \<open>Nullable values\<close>

datatype 'a nullable = Null | NonNull 'a

definition chain_null :: "'a nullable \<Rightarrow> ('a \<Rightarrow> 'b) \<Rightarrow> 'b option" where
  "chain_null x f = (case x of Null \<Rightarrow> None | NonNull v \<Rightarrow> Some (f v))"

section \<open>Truthiness and the \<open>||\<close> operator\<close>

text \<open>
  \<open>ToBoolean\<close> on a value of type \<open>string | undefined\<close>: \<open>undefined\<close> and the empty
  string are falsy, every other string is truthy. On \<open>boolean | undefined\<close> only
  \<open>true\<close> is truthy.
\<close>

definition truthy :: "'a list option \<Rightarrow> bool" where
  "truthy x = (case x of None \<Rightarrow> False | Some s \<Rightarrow> s \<noteq> [])"

definition truthy_bool :: "bool option \<Rightarrow> bool" where
  "truthy_bool x = (case x of None \<Rightarrow> False | Some b \<Rightarrow> b)"

text \<open>\<open>x || d\<close> for an optional string \<open>x\<close> and a string \<open>d\<close>.\<close>

definition or_else :: "'a list option \<Rightarrow> 'a list \<Rightarrow> 'a list" where
  "or_else x d = (case x of None \<Rightarrow> d | Some s \<Rightarrow> if s = [] then d else s)"

section \<open>Template literals\<close>

text \<open>
  A substitution \<open>${e}\<close> of a template literal applies \<open>ToString\<close> to the value
  of \<open>e\<close>: a string is itself, \<open>undefined\<close> becomes the nine characters
  \<open>undefined\<close> and \<open>null\<close> the four characters \<open>null\<close>.
\<close>

definition tmpl :: "jsstring option \<Rightarrow> jsstring" where
  "tmpl x = (case x of None \<Rightarrow> ''undefined'' | Some s \<Rightarrow> s)"

definition tmpl_null :: "jsstring nullable \<Rightarrow> jsstring" where
  "tmpl_null x = (case x of Null \<Rightarrow> ''null'' | NonNull s \<Rightarrow> s)"

section \<open>Array reads\<close>

text \<open>\<open>xs[i]\<close>: the element at index \<open>i\<close>, \<open>undefined\<close> past the end.\<close>

definition index_js :: "'a list \<Rightarrow> nat \<Rightarrow> 'a option" where
  "index_js xs i = (if i < length xs then Some (xs ! i) else None)"

section \<open>Evaluation rules\<close>

lemmas js_value_defs [js_defs] =
  chain_null_def truthy_def truthy_bool_def or_else_def tmpl_def tmpl_null_def index_js_def

lemma chain_null_simps [simp]:
  "chain_null Null f = None"
  "chain_null (NonNull v) f = Some (f v)"
  by (simp_all add: chain_null_def)

lemma chain_null_eq_None [simp]: "chain_null x f = None \<longleftrightarrow> x = Null"
  by (cases x) simp_all

lemma truthy_simps [simp]:
  "truthy None = False"
  "truthy (Some s) = (s \<noteq> [])"
  by (simp_all add: truthy_def)

lemma truthy_bool_simps [simp]:
  "truthy_bool None = False"
  "truthy_bool (Some b) = b"
  by (simp_all add: truthy_bool_def)

lemma or_else_simps [simp]:
  "or_else None d = d"
  "or_else (Some []) d = d"
  "s \<noteq> [] \<Longrightarrow> or_else (Some s) d = s"
  by (simp_all add: or_else_def)

lemma or_else_truthy: "or_else x d = (if truthy x then the x else d)"
  by (cases x) (simp_all add: or_else_def)

lemma or_else_nonempty: "d \<noteq> [] \<Longrightarrow> or_else x d \<noteq> []"
  by (simp add: or_else_def split: option.split)

lemma or_else_empty_iff: "or_else x [] = [] \<longleftrightarrow> \<not> truthy x"
  by (simp add: or_else_def split: option.split)

lemma tmpl_simps [simp]:
  "tmpl None = ''undefined''"
  "tmpl (Some s) = s"
  by (simp_all add: tmpl_def)

lemma tmpl_null_simps [simp]:
  "tmpl_null Null = ''null''"
  "tmpl_null (NonNull s) = s"
  by (simp_all add: tmpl_null_def)

lemma index_js_Nil [simp]: "index_js [] i = None"
  by (simp add: index_js_def)

lemma index_js_Cons_0 [simp]: "index_js (x # xs) 0 = Some x"
  by (simp add: index_js_def)

lemma index_js_Cons_Suc [simp]: "index_js (x # xs) (Suc i) = index_js xs i"
  by (simp add: index_js_def)

lemma index_js_eq_None: "index_js xs i = None \<longleftrightarrow> length xs \<le> i"
  by (auto simp: index_js_def)

lemma index_js_take: "i < n \<Longrightarrow> index_js (take n xs) i = index_js xs i"
  by (simp add: index_js_def)

end
