(* ===== verification/JS_String.thy ===== *)
theory JS_String
  imports JS_Value
begin

text \<open>
  The string search of ECMAScript that the widget calls, written after the
  algorithms of ECMA-262: the abstract operation \<open>StringIndexOf\<close> and
  \<open>String.prototype.includes\<close>. The lemmas relate the search to \<open>occurs_at\<close> and
  to \<open>sublist\<close> of the library: it finds the least occurrence, and it fails
  exactly when there is none.
\<close>

section \<open>Searching\<close>

text \<open>The least position at which \<open>p\<close> occurs in \<open>s\<close>, searching from the start.\<close>

primrec first_occ :: "'a list \<Rightarrow> 'a list \<Rightarrow> nat option" where
  "first_occ p [] = (if p = [] then Some 0 else None)"
| "first_occ p (c # s) = (if prefix p (c # s) then Some 0 else map_option Suc (first_occ p s))"

text \<open>
  \<open>StringIndexOf(string, searchValue, fromIndex)\<close>: the least position not below
  \<open>fromIndex\<close> at which \<open>searchValue\<close> occurs, \<open>None\<close> for the result
  \<open>NOT-FOUND\<close>.
\<close>

definition StringIndexOf :: "'a list \<Rightarrow> 'a list \<Rightarrow> nat \<Rightarrow> nat option" where
  "StringIndexOf s p from =
     (if from \<le> length s then map_option (\<lambda>k. from + k) (first_occ p (drop from s)) else None)"

text \<open>\<open>s.includes(p)\<close>, with the start position left at its default 0.\<close>

definition includes_js :: "'a list \<Rightarrow> 'a list \<Rightarrow> bool" where
  "includes_js s p \<longleftrightarrow> StringIndexOf s p 0 \<noteq> None"

lemma first_occ_Some:
  "first_occ p s = Some i \<Longrightarrow> occurs_at p s i \<and> i \<le> length s \<and> (\<forall>j<i. \<not> occurs_at p s j)"
proof (induction s arbitrary: i)
  case Nil
  then show ?case by (simp split: if_splits)
next
  case (Cons c s)
  show ?case
  proof (cases "prefix p (c # s)")
    case True
    with Cons.prems show ?thesis by simp
  next
    case False
    with Cons.prems obtain k where k: "first_occ p s = Some k" and i: "i = Suc k"
      by auto
    from Cons.IH [OF k] False show ?thesis
      unfolding i by (auto simp: less_Suc_eq_0_disj)
  qed
qed

lemma first_occ_None: "first_occ p s = None \<longleftrightarrow> (\<forall>i. \<not> occurs_at p s i)"
proof (induction s)
  case Nil
  then show ?case by simp
next
  case (Cons c s)
  have "(\<forall>i. \<not> occurs_at p (c # s) i) \<longleftrightarrow> \<not> prefix p (c # s) \<and> (\<forall>i. \<not> occurs_at p s i)"
    by (metis occurs_at_0 occurs_at_Suc not0_implies_Suc)
  with Cons.IH show ?case by simp
qed

lemma first_occ_None_sublist: "first_occ p s = None \<longleftrightarrow> \<not> sublist p s"
  by (simp add: first_occ_None sublist_iff_occurs)

lemma first_occ_Some_sublist: "first_occ p s = Some i \<Longrightarrow> sublist p s"
  using first_occ_None_sublist [of p s] by simp

lemma first_occ_prefix [simp]: "prefix p s \<Longrightarrow> first_occ p s = Some 0"
  by (cases s) simp_all

lemma first_occ_decomp:
  assumes "first_occ p s = Some i"
  shows "s = take i s @ p @ drop (i + length p) s"
proof -
  from first_occ_Some [OF assms] have "prefix p (drop i s)"
    by (simp add: occurs_at_def)
  then have "p @ drop (length p) (drop i s) = drop i s"
    by (rule prefix_drop_length)
  then have "take i s @ p @ drop (i + length p) s = take i s @ drop i s"
    by (simp add: add.commute)
  then show ?thesis by simp
qed

lemma first_occ_bound:
  "first_occ p s = Some i \<Longrightarrow> p \<noteq> [] \<Longrightarrow> i + length p \<le> length s"
  by (blast dest: first_occ_Some intro: occurs_at_bound)

lemma includes_js_first_occ: "includes_js s p \<longleftrightarrow> first_occ p s \<noteq> None"
  by (simp add: includes_js_def StringIndexOf_def)

lemma includes_js_sublist: "includes_js s p \<longleftrightarrow> sublist p s"
  by (simp add: includes_js_first_occ first_occ_None_sublist)

lemma includes_js_append [simp]: "includes_js (a @ p @ b) p"
  by (simp add: includes_js_sublist)

lemma includes_js_prefix [simp]: "includes_js (p @ b) p"
  by (simp add: includes_js_sublist)

lemma includes_js_empty [simp]: "includes_js [] p \<longleftrightarrow> p = []"
  by (simp add: includes_js_sublist)

lemma includes_js_trans: "includes_js s q \<Longrightarrow> includes_js q p \<Longrightarrow> includes_js s p"
  unfolding includes_js_sublist by (rule sublist_order.order_trans)

lemma StringIndexOf_0 [simp]: "StringIndexOf s p 0 = first_occ p s"
  by (cases "first_occ p s") (simp_all add: StringIndexOf_def)

lemma StringIndexOf_range:
  assumes "StringIndexOf s p i = Some j" and "p \<noteq> []"
  shows "i \<le> j \<and> j + length p \<le> length s"
proof -
  from assms(1) obtain k where i: "i \<le> length s" and k: "first_occ p (drop i s) = Some k"
    and j: "j = i + k"
    by (auto simp: StringIndexOf_def split: if_splits)
  from first_occ_bound [OF k assms(2)] i show ?thesis
    unfolding j by simp
qed

end
