(* ===== verification/Lanyard_Data.thy ===== *)
theory Lanyard_Data
  imports JS_String
begin

text \<open>
  The data model of \<^verbatim>\<open>src/src/LanyardProfile.tsx\<close>: one record per TypeScript
  interface, in the order of the source, the two module constants and the
  initial view state of the component.

  Field names are the source's names behind a prefix that names the interface
  (\<open>du_\<close> for \<open>DiscordUser\<close>, \<open>ac_\<close> for \<open>Activity\<close>, \<open>sp_\<close> for \<open>SpotifyData\<close>,
  \<open>ld_\<close> for \<open>LanyardData\<close>, \<open>pd_\<close> for \<open>ProfileData\<close>, \<open>pa_\<close> for its \<open>activity\<close>
  member), because several interfaces share member names (\<open>name\<close>, \<open>state\<close>,
  \<open>avatar\<close>) and some clash with constants of HOL (\<open>id\<close>, \<open>bot\<close>). The members of
  \<open>assets\<close> keep their names; those of the two anonymous \<open>timestamps\<close> types carry
  \<open>ts_\<close> and \<open>st_\<close>.
  A member \<open>f?: T\<close> has type \<open>T option\<close>, a member of type \<open>T | null\<close> has type
  \<open>T nullable\<close>.
\<close>

section \<open>Module constants\<close>

definition API_URL :: jsstring where
  "API_URL = ''https://api.lanyard.rest/v1''"

definition USERID :: jsstring where
  "USERID = ''1025214794766221384''"

section \<open>The payload of the presence API\<close>

record DiscordUser =
  du_id :: jsstring
  du_username :: jsstring
  du_avatar :: "jsstring nullable"
  du_discriminator :: jsstring
  du_bot :: bool
  du_global_name :: "jsstring nullable"
  du_avatar_decoration :: "jsstring nullable"
  du_display_name :: "jsstring nullable"
  du_public_flags :: jsnumber

record ActivityTimestamps =
  ts_start :: "jsnumber option"
  ts_end :: "jsnumber option"

record ActivityAssets =
  large_image :: "jsstring option"
  large_text :: "jsstring option"
  small_image :: "jsstring option"
  small_text :: "jsstring option"

record Activity =
  ac_id :: jsstring
  ac_name :: jsstring
  ac_type :: jsnumber
  ac_state :: "jsstring option"
  ac_details :: "jsstring option"
  ac_timestamps :: "ActivityTimestamps option"
  ac_application_id :: jsstring
  ac_assets :: "ActivityAssets option"
  ac_created_at :: "jsnumber option"

record SpotifyTimestamps =
  st_start :: jsnumber
  st_end :: jsnumber

record SpotifyData =
  sp_track_id :: jsstring
  sp_timestamps :: SpotifyTimestamps
  sp_album :: jsstring
  sp_album_art_url :: jsstring
  sp_artist :: jsstring
  sp_song :: jsstring

record LanyardData =
  ld_spotify :: "SpotifyData nullable"
  ld_discord_user :: DiscordUser
  ld_activities :: "Activity list"
  ld_discord_status :: jsstring
  ld_active_on_discord_web :: bool
  ld_active_on_discord_desktop :: bool
  ld_active_on_discord_mobile :: bool
  ld_listening_to_spotify :: bool

section \<open>The view state\<close>

record ProfileActivity =
  pa_hidden :: bool
  pa_bigImage :: "jsstring option"
  pa_bigImageTitle :: "jsstring option"
  pa_smallImage :: "jsstring option"
  pa_name :: "jsstring option"
  pa_state :: "jsstring option"
  pa_details :: "jsstring option"

record ProfileData =
  pd_avatar :: jsstring
  pd_discordStatus :: jsstring
  pd_username :: jsstring
  pd_status :: jsstring
  pd_activity :: ProfileActivity

text \<open>
  The argument of \<open>useState\<close>: the state before the first reply. Its avatar is
  \<open>assets.loader\<close>, a string of a module outside the sources, hence a parameter.
  The member \<open>bigImageTitle\<close> is absent from the object literal, so reading it
  gives \<open>undefined\<close>.
\<close>

definition initialProfileData :: "jsstring \<Rightarrow> ProfileData" where
  "initialProfileData loader =
     \<lparr> pd_avatar = loader,
       pd_discordStatus = [],
       pd_username = [],
       pd_status = [],
       pd_activity =
         \<lparr> pa_hidden = True,
           pa_bigImage = Some [],
           pa_bigImageTitle = None,
           pa_smallImage = Some [],
           pa_name = Some [],
           pa_state = Some [],
           pa_details = Some [] \<rparr> \<rparr>"

text \<open>
  What the renderer reads of a view state is defined: the five optional members
  of \<open>activity\<close> that the markup tests and prints. (\<open>bigImageTitle\<close> is written by
  the fetcher and read nowhere.)
\<close>

definition populated :: "ProfileData \<Rightarrow> bool" where
  "populated pd \<longleftrightarrow>
     pa_bigImage (pd_activity pd) \<noteq> None \<and>
     pa_smallImage (pd_activity pd) \<noteq> None \<and>
     pa_name (pd_activity pd) \<noteq> None \<and>
     pa_state (pd_activity pd) \<noteq> None \<and>
     pa_details (pd_activity pd) \<noteq> None"

lemmas data_defs [lp_defs] = API_URL_def USERID_def initialProfileData_def populated_def

lemma populated_initial: "populated (initialProfileData loader)"
  by (simp add: populated_def initialProfileData_def)

end
