(* ===== verification/Lanyard_Examples.thy ===== *)
theory Lanyard_Examples
  imports Lanyard_Data
begin

text \<open>
  Concrete payloads of the presence API, in the shapes the service sends: a
  custom status (type code 4), a game with numeric asset keys, an activity whose
  art is proxied (\<open>mp:external/\<close>), a Spotify activity with and without the
  \<open>spotify\<close> member, and an asset key that contains \<open>external\<close> without being a
  proxied address. The closed instances of the theorems are stated on them.
\<close>

definition example_user :: DiscordUser where
  "example_user =
     \<lparr> du_id = ''1025214794766221384'', du_username = ''loneweeb'',
       du_avatar = NonNull ''a_1f0c'', du_discriminator = ''0'', du_bot = False,
       du_global_name = Null, du_avatar_decoration = Null, du_display_name = Null,
       du_public_flags = 0 \<rparr>"

definition custom_status :: Activity where
  "custom_status =
     \<lparr> ac_id = ''custom'', ac_name = ''Custom Status'', ac_type = 4,
       ac_state = Some ''brb'', ac_details = None, ac_timestamps = None,
       ac_application_id = [], ac_assets = None, ac_created_at = None \<rparr>"

definition game_activity :: Activity where
  "game_activity =
     \<lparr> ac_id = ''b1'', ac_name = ''Visual Studio Code'', ac_type = 0,
       ac_state = Some ''Editing main.ts'', ac_details = Some ''Workspace: site'',
       ac_timestamps = Some \<lparr> ts_start = Some 1700000000, ts_end = None \<rparr>,
       ac_application_id = ''383226320970055681'',
       ac_assets = Some \<lparr> large_image = Some ''565945350645628958'', large_text = None,
                          small_image = Some ''mp:external/ab/https/x.org/s.png'',
                          small_text = None \<rparr>,
       ac_created_at = None \<rparr>"

definition proxied_activity :: Activity where
  "proxied_activity =
     \<lparr> ac_id = ''b2'', ac_name = ''Some Game'', ac_type = 0,
       ac_state = None, ac_details = None, ac_timestamps = None,
       ac_application_id = ''999'',
       ac_assets = Some \<lparr> large_image = Some ''mp:external/foo.png'', large_text = None,
                          small_image = None, small_text = None \<rparr>,
       ac_created_at = None \<rparr>"

definition mislabelled_activity :: Activity where
  "mislabelled_activity =
     \<lparr> ac_id = ''b3'', ac_name = ''Some Game'', ac_type = 0,
       ac_state = None, ac_details = None, ac_timestamps = None,
       ac_application_id = ''999'',
       ac_assets = Some \<lparr> large_image = Some ''external_link'', large_text = None,
                          small_image = None, small_text = None \<rparr>,
       ac_created_at = None \<rparr>"

definition spotify_activity :: Activity where
  "spotify_activity =
     \<lparr> ac_id = ''spotify:1'', ac_name = ''Spotify'', ac_type = 2,
       ac_state = Some ''Some Artist'', ac_details = Some ''Some Song'',
       ac_timestamps = None, ac_application_id = [],
       ac_assets = Some \<lparr> large_image = Some ''spotify:ab67616d'', large_text = Some ''Some Album'',
                          small_image = None, small_text = None \<rparr>,
       ac_created_at = None \<rparr>"

definition example_track :: SpotifyData where
  "example_track =
     \<lparr> sp_track_id = ''4uLU6hMC'', sp_timestamps = \<lparr> st_start = 1700000000, st_end = 1700000200 \<rparr>,
       sp_album = ''Some Album'', sp_album_art_url = ''https://i.scdn.co/image/ab67616d'',
       sp_artist = ''Some Artist'', sp_song = ''Some Song'' \<rparr>"

text \<open>A payload with the given status, activities and Spotify member.\<close>

definition payload :: "jsstring \<Rightarrow> Activity list \<Rightarrow> SpotifyData nullable \<Rightarrow> LanyardData" where
  "payload status activities spotify =
     \<lparr> ld_spotify = spotify, ld_discord_user = example_user, ld_activities = activities,
       ld_discord_status = status, ld_active_on_discord_web = False,
       ld_active_on_discord_desktop = True, ld_active_on_discord_mobile = False,
       ld_listening_to_spotify = (spotify \<noteq> Null) \<rparr>"

lemmas example_defs =
  example_user_def custom_status_def game_activity_def proxied_activity_def
  mislabelled_activity_def spotify_activity_def example_track_def payload_def

end
