(* ===== verification/JS_Split.thy ===== *)
theory JS_Split
  imports JS_String
begin

text \<open>
  \<open>String.prototype.split\<close> with a string separator, after ECMA-262, and
  \<open>join_js\<close> (\<open>Array.prototype.join\<close> on an array of strings), which the widget
  does not call: it states what \<open>split\<close> preserves.

  The lemmas characterise the segments that \<open>split\<close> returns: they join back to
  the string, none of them contains the separator, and the segment at index 1,
  the one the widget reads, is the text between the first two occurrences.
\<close>

section \<open>Splitting\<close>

text \<open>
  The loop of \<open>String.prototype.split\<close> (steps 14 to 19): \<open>i\<close> is the start of the
  segment being collected and \<open>StringIndexOf\<close> finds the separator \<open>R\<close> from
  there. The first test is never true where \<open>split_all\<close> calls the loop, which
  handles the empty separator before; it makes the loop total.
\<close>

function split_loop :: "'a list \<Rightarrow> 'a list \<Rightarrow> nat \<Rightarrow> 'a list list" where
  "split_loop S R i =
     (if R = [] then [drop i S]
      else case StringIndexOf S R i of
             None \<Rightarrow> [drop i S]
           | Some j \<Rightarrow> take (j - i) (drop i S) # split_loop S R (j + length R))"
  by pat_completeness auto
termination
proof (relation "measure (\<lambda>(S, R, i). length S - i)")
  fix S R :: "'a list" and i j :: nat
  assume "R \<noteq> []" and "StringIndexOf S R i = Some j"
  then have "i \<le> j \<and> j + length R \<le> length S" and "R \<noteq> []"
    by (simp_all add: StringIndexOf_range)
  then show "((S, R, j + length R), (S, R, i)) \<in> measure (\<lambda>(S, R, i). length S - i)"
    by (simp add: skip_pattern_less)
qed simp

declare split_loop.simps [simp del]

text \<open>
  \<open>S.split(R)\<close> without the limit: an empty separator splits into code units, an
  empty string gives one empty segment, otherwise the loop runs from 0.
\<close>

definition split_all :: "'a list \<Rightarrow> 'a list \<Rightarrow> 'a list list" where
  "split_all S R =
     (if R = [] then map (\<lambda>c. [c]) S
      else if S = [] then [[]]
      else split_loop S R 0)"

text \<open>
  \<open>S.split(R)\<close> as the widget calls it: the limit argument is absent, so the
  result holds at most \<open>2^32 - 1\<close> segments.
\<close>

definition split_limit :: nat where
  "split_limit = 2 ^ 32 - 1"

definition split_js :: "'a list \<Rightarrow> 'a list \<Rightarrow> 'a list list" where
  "split_js S R = take split_limit (split_all S R)"

text \<open>\<open>xs.join(sep)\<close> on an array of strings.\<close>

fun join_js :: "'a list \<Rightarrow> 'a list list \<Rightarrow> 'a list" where
  "join_js sep [] = []"
| "join_js sep [x] = x"
| "join_js sep (x # y # ys) = x @ sep @ join_js sep (y # ys)"

lemma join_js_Cons: "ys \<noteq> [] \<Longrightarrow> join_js sep (x # ys) = x @ sep @ join_js sep ys"
  by (cases ys) simp_all

text \<open>The loop started at \<open>i\<close> is the loop started at 0 on the rest of the string.\<close>

lemma split_loop_shift:
  "R \<noteq> [] \<Longrightarrow> i \<le> length S \<Longrightarrow> split_loop S R i = split_loop (drop i S) R 0"
proof (induction "length S - i" arbitrary: S i rule: less_induct)
  case less
  show ?case
  proof (cases "first_occ R (drop i S)")
    case None
    with less.prems show ?thesis
      by (simp add: split_loop.simps [of S R i] split_loop.simps [of "drop i S" R 0]
          StringIndexOf_def)
  next
    case (Some k)
    from first_occ_bound [OF Some less.prems(1)] less.prems
    have bound: "i + k + length R \<le> length S"
      by simp
    have "split_loop S R (i + k + length R) = split_loop (drop (i + k + length R) S) R 0"
      using less.prems(1) bound
      by (intro less.hyps) (simp_all add: skip_pattern_less)
    moreover
    have "split_loop (drop i S) R (k + length R)
        = split_loop (drop (k + length R) (drop i S)) R 0"
      using less.prems bound skip_pattern_less [of R 0 k "length S - i"]
      by (intro less.hyps) simp_all
    ultimately show ?thesis
      using Some less.prems
      by (simp add: split_loop.simps [of S R i] split_loop.simps [of "drop i S" R 0]
          StringIndexOf_def ac_simps)
  qed
qed

text \<open>The unfolding of \<open>split_all\<close> that the proofs below use.\<close>

lemma split_all_unfold:
  assumes "R \<noteq> []"
  shows "split_all S R =
    (case first_occ R S of
       None \<Rightarrow> [S]
     | Some j \<Rightarrow> take j S # split_all (drop (j + length R) S) R)"
proof (cases "first_occ R S")
  case None
  with assms show ?thesis
    by (cases S) (simp_all add: split_all_def split_loop.simps [of _ R 0])
next
  case (Some j)
  from first_occ_bound [OF Some assms] have bound: "j + length R \<le> length S" .
  with assms have S: "S \<noteq> []" by auto
  have "split_loop S R (j + length R) = split_loop (drop (j + length R) S) R 0"
    using assms bound by (rule split_loop_shift)
  moreover have "split_all (drop (j + length R) S) R = split_loop (drop (j + length R) S) R 0"
    using assms by (simp add: split_all_def split_loop.simps [of "[]" R 0])
  ultimately show ?thesis
    using Some assms S by (simp add: split_all_def split_loop.simps [of S R 0])
qed

lemma split_all_not_found: "R \<noteq> [] \<Longrightarrow> \<not> includes_js S R \<Longrightarrow> split_all S R = [S]"
  by (simp add: split_all_unfold includes_js_first_occ)

lemma split_all_nonempty [simp]: "split_all [] R = [] \<longleftrightarrow> R = []"
  by (simp add: split_all_def)

lemma split_all_neq_Nil: "R \<noteq> [] \<Longrightarrow> split_all S R \<noteq> []"
  by (simp add: split_all_unfold split: option.split)

text \<open>No occurrence of the pattern lies wholly before its first occurrence.\<close>

lemma first_occ_take_free:
  assumes "first_occ p s = Some j" and "p \<noteq> []"
  shows "\<not> sublist p (take j s)"
proof
  assume "sublist p (take j s)"
  then obtain k where k: "occurs_at p (take j s) k"
    by (auto dest: sublist_occurs_at)
  from occurs_at_bound [OF k assms(2)] assms(2) have "k < j"
    by (cases p) auto
  moreover from k have "occurs_at p s k"
    by (rule occurs_at_take)
  ultimately show False
    using first_occ_Some [OF assms(1)] by blast
qed

section \<open>What \<open>split\<close> returns\<close>

text \<open>Joining the segments with the separator gives the string back.\<close>

lemma join_split_chars: "join_js [] (map (\<lambda>c. [c]) S) = S"
proof (induction S)
  case Nil
  show ?case by simp
next
  case (Cons c S)
  then show ?case by (cases S) simp_all
qed

lemma join_split_all: "join_js R (split_all S R) = S"
proof (cases "R = []")
  case True
  then show ?thesis by (simp add: split_all_def join_split_chars)
next
  case False
  show ?thesis
  proof (induction "length S" arbitrary: S rule: less_induct)
    case less
    show ?case
    proof (cases "first_occ R S")
      case None
      with False show ?thesis by (simp add: split_all_unfold)
    next
      case (Some j)
      let ?rest = "drop (j + length R) S"
      from first_occ_bound [OF Some False] False have "length ?rest < length S"
        using skip_pattern_less [of R 0 j "length S"] by simp
      then have "join_js R (split_all ?rest R) = ?rest"
        by (rule less.hyps)
      with False Some first_occ_decomp [OF Some] show ?thesis
        by (simp add: split_all_unfold [of R S] join_js_Cons split_all_neq_Nil)
    qed
  qed
qed

text \<open>No segment contains the separator.\<close>

lemma split_all_segments:
  assumes "R \<noteq> []"
  shows "seg \<in> set (split_all S R) \<Longrightarrow> \<not> includes_js seg R"
proof (induction "length S" arbitrary: S rule: less_induct)
  case less
  show ?case
  proof (cases "first_occ R S")
    case None
    with assms less.prems show ?thesis
      by (simp add: split_all_unfold includes_js_first_occ)
  next
    case (Some j)
    let ?rest = "drop (j + length R) S"
    from first_occ_bound [OF Some assms] assms have shorter: "length ?rest < length S"
      using skip_pattern_less [of R 0 j "length S"] by simp
    from less.prems assms Some
    consider "seg = take j S" | "seg \<in> set (split_all ?rest R)"
      by (auto simp: split_all_unfold [of R S])
    then show ?thesis
    proof cases
      case 1
      with first_occ_take_free [OF Some assms] show ?thesis
        by (simp add: includes_js_sublist)
    next
      case 2
      with shorter show ?thesis by (rule less.hyps)
    qed
  qed
qed

text \<open>There are at most as many segments as code units, plus one.\<close>

lemma length_split_all: "length (split_all S R) \<le> Suc (length S)"
proof (cases "R = []")
  case True
  then show ?thesis by (simp add: split_all_def)
next
  case False
  show ?thesis
  proof (induction "length S" arbitrary: S rule: less_induct)
    case less
    show ?case
    proof (cases "first_occ R S")
      case None
      with False show ?thesis by (simp add: split_all_unfold)
    next
      case (Some j)
      let ?rest = "drop (j + length R) S"
      from first_occ_bound [OF Some False] False have shorter: "length ?rest < length S"
        using skip_pattern_less [of R 0 j "length S"] by simp
      then have "length (split_all ?rest R) \<le> Suc (length ?rest)"
        by (rule less.hyps)
      with shorter False Some show ?thesis
        by (simp add: split_all_unfold [of R S])
    qed
  qed
qed

text \<open>
  The segment at index 1: absent when the separator does not occur, otherwise
  the text after the first occurrence up to the next one.
\<close>

lemma split_all_second:
  assumes "R \<noteq> []"
  shows "index_js (split_all S R) (Suc 0) =
    (case first_occ R S of
       None \<Rightarrow> None
     | Some j \<Rightarrow>
         Some (case first_occ R (drop (j + length R) S) of
                 None \<Rightarrow> drop (j + length R) S
               | Some k \<Rightarrow> take k (drop (j + length R) S)))"
proof (cases "first_occ R S")
  case None
  with assms show ?thesis by (simp add: split_all_unfold)
next
  case (Some j)
  with assms show ?thesis
    by (simp add: split_all_unfold [of R S] split_all_unfold [of R "drop (j + length R) S"]
        split: option.split)
qed

section \<open>The limit\<close>

lemma split_limit_gt_1: "1 < split_limit"
  by (simp add: split_limit_def)

lemma split_js_no_limit: "length S < split_limit \<Longrightarrow> split_js S R = split_all S R"
  using length_split_all [of S R] by (simp add: split_js_def)

text \<open>
  The limit does not change the segment at index 1. (The simplifier writes the
  index 1 as \<open>Suc 0\<close>, so the lemmas about it are stated in that form.)
\<close>

lemma split_js_second: "index_js (split_js S R) (Suc 0) = index_js (split_all S R) (Suc 0)"
  using split_limit_gt_1 by (simp add: split_js_def index_js_take)

lemma split_js_second_None:
  "R \<noteq> [] \<Longrightarrow> \<not> includes_js S R \<Longrightarrow> index_js (split_js S R) (Suc 0) = None"
  by (simp add: split_js_second split_all_second includes_js_first_occ)

lemma split_js_second_Some:
  "R \<noteq> [] \<Longrightarrow> includes_js S R \<Longrightarrow> \<exists>seg. index_js (split_js S R) (Suc 0) = Some seg"
  by (auto simp: split_js_second split_all_second includes_js_first_occ)

lemma split_js_second_prefix:
  assumes "R \<noteq> []" and "\<not> includes_js rest R"
  shows "index_js (split_js (R @ rest) R) (Suc 0) = Some rest"
  using assms by (simp add: split_js_second split_all_second includes_js_first_occ)

end
