(* ===== verification/Lanyard_Normalize.thy ===== *)
theory Lanyard_Normalize
  imports Lanyard_Examples JS_Split
begin

text \<open>
  The normalisation inside \<open>fetchUserData\<close> (lines 100 to 136 of
  \<^verbatim>\<open>src/src/LanyardProfile.tsx\<close>): from the payload of the presence API to the
  view state that is handed to \<open>setProfileData\<close>.

  The definitions follow the statements of the source: the choice of the current
  activity, the object literal \<open>currentData\<close>, and the two conditional
  assignments to \<open>bigImage\<close> and \<open>smallImage\<close>. The assignment to \<open>bigImage\<close> calls
  \<open>includes\<close> and \<open>split\<close> on \<open>large_image\<close> without optional chaining, so it is
  the one place that can raise a \<open>TypeError\<close>; it returns a sum.
\<close>

section \<open>The current activity\<close>

text \<open>\<open>activities.find((activity) => activity.type !== 4)\<close>\<close>

definition currentActivity :: "Activity list \<Rightarrow> Activity option" where
  "currentActivity activities = find (\<lambda>activity. ac_type activity \<noteq> 4) activities"

text \<open>\<open>currentActivity?.assets?.large_image\<close> and \<open>currentActivity?.assets?.small_image\<close>\<close>

definition cur_large_image :: "Activity option \<Rightarrow> jsstring option" where
  "cur_large_image cur = Option.bind (Option.bind cur ac_assets) large_image"

definition cur_small_image :: "Activity option \<Rightarrow> jsstring option" where
  "cur_small_image cur = Option.bind (Option.bind cur ac_assets) small_image"

text \<open>\<open>currentActivity?.assets?.large_image?.includes("spotify")\<close>\<close>

definition mentions_spotify :: "Activity option \<Rightarrow> bool option" where
  "mentions_spotify cur = map_option (\<lambda>s. includes_js s ''spotify'') (cur_large_image cur)"

section \<open>The object literal\<close>

definition currentData_init :: "LanyardData \<Rightarrow> ProfileData" where
  "currentData_init data =
     (let cur = currentActivity (ld_activities data) in
      \<lparr> pd_avatar = ''https://cdn.discordapp.com/avatars/'' @ USERID @ ''/''
           @ tmpl_null (du_avatar (ld_discord_user data)),
        pd_discordStatus = ld_discord_status data,
        pd_username = ''@'' @ du_username (ld_discord_user data),
        pd_status =
          (if ld_discord_status data \<noteq> ''offline''
           then ''Status: '' @ [CHR 0x22] @ or_else (Option.bind cur ac_state) [] @ [CHR 0x22]
           else []),
        pd_activity =
          \<lparr> pa_hidden = (ld_discord_status data = ''offline''),
            pa_bigImage =
              (if truthy_bool (mentions_spotify cur)
               then chain_null (ld_spotify data) sp_album_art_url else Some []),
            pa_bigImageTitle =
              (if truthy_bool (mentions_spotify cur)
               then chain_null (ld_spotify data) sp_album else Some []),
            pa_smallImage = Some [],
            pa_name = Some (or_else (map_option ac_name cur) ''doing yo moma''),
            pa_state = Some (or_else (Option.bind cur ac_state) []),
            pa_details = Some (or_else (Option.bind cur ac_details) []) \<rparr> \<rparr>)"

section \<open>The image addresses\<close>

text \<open>
  \<open>`https://media.discordapp.net/external/${img.split("mp:external/")[1]}`\<close>,
  given the segment \<open>img.split("mp:external/")[1]\<close>, and
  \<open>`https://cdn.discordapp.com/app-assets/${application_id}/${img}.png`\<close>.
\<close>

definition external_segment :: "jsstring \<Rightarrow> jsstring option" where
  "external_segment img = index_js (split_js img ''mp:external/'') 1"

definition external_url :: "jsstring option \<Rightarrow> jsstring" where
  "external_url seg = ''https://media.discordapp.net/external/'' @ tmpl seg"

definition app_asset_url :: "jsstring option \<Rightarrow> jsstring option \<Rightarrow> jsstring" where
  "app_asset_url app img =
     ''https://cdn.discordapp.com/app-assets/'' @ tmpl app @ ''/'' @ tmpl img @ ''.png''"

text \<open>
  The right-hand side of the assignment to \<open>bigImage\<close> (lines 124 to 129). Its
  test is \<open>currentActivity?.assets?.large_image.includes("external")\<close>: the chain
  ends with \<open>undefined\<close>, which is falsy, when there is no current activity or the
  activity has no \<open>assets\<close>; when \<open>assets\<close> is there, \<open>.includes\<close> is read from
  \<open>large_image\<close>, which is a \<open>TypeError\<close> when \<open>large_image\<close> is \<open>undefined\<close>. The
  \<open>split\<close> of line 125 is reached only after \<open>includes\<close> has returned.
\<close>

definition large_image_url :: "Activity option \<Rightarrow> js_error + jsstring" where
  "large_image_url cur =
     (case Option.bind cur ac_assets of
        None \<Rightarrow> Inr (app_asset_url (map_option ac_application_id cur) (cur_large_image cur))
      | Some assets \<Rightarrow>
          (case large_image assets of
             None \<Rightarrow> Inl TypeError
           | Some img \<Rightarrow>
               Inr (if includes_js img ''external''
                    then external_url (external_segment img)
                    else app_asset_url (map_option ac_application_id cur) (cur_large_image cur))))"

text \<open>
  The right-hand side of the assignment to \<open>smallImage\<close> (lines 131 to 136): every
  access is an optional chain, so it cannot throw.
\<close>

definition small_image_url :: "Activity option \<Rightarrow> jsstring" where
  "small_image_url cur =
     (if truthy_bool (map_option (\<lambda>s. includes_js s ''external'') (cur_small_image cur))
      then external_url (Option.bind (cur_small_image cur) external_segment)
      else app_asset_url (map_option ac_application_id cur) (cur_small_image cur))"

section \<open>The two assignments and the whole normalisation\<close>

definition assign_bigImage :: "Activity option \<Rightarrow> ProfileData \<Rightarrow> js_error + ProfileData" where
  "assign_bigImage cur pd =
     (if truthy (cur_large_image cur) \<and> \<not> truthy_bool (mentions_spotify cur)
      then case large_image_url cur of
             Inl e \<Rightarrow> Inl e
           | Inr url \<Rightarrow> Inr (pd\<lparr>pd_activity := (pd_activity pd)\<lparr>pa_bigImage := Some url\<rparr>\<rparr>)
      else Inr pd)"

definition assign_smallImage :: "Activity option \<Rightarrow> ProfileData \<Rightarrow> ProfileData" where
  "assign_smallImage cur pd =
     (if truthy (cur_small_image cur) \<or> \<not> truthy_bool (mentions_spotify cur)
      then pd\<lparr>pd_activity := (pd_activity pd)\<lparr>pa_smallImage := Some (small_image_url cur)\<rparr>\<rparr>
      else pd)"

definition currentData :: "LanyardData \<Rightarrow> js_error + ProfileData" where
  "currentData data =
     (let cur = currentActivity (ld_activities data) in
      case assign_bigImage cur (currentData_init data) of
        Inl e \<Rightarrow> Inl e
      | Inr pd \<Rightarrow> Inr (assign_smallImage cur pd))"

section \<open>The view state as a function of the payload\<close>

text \<open>
  What the normalisation promises, without statements, mutation or exceptions:
  each member of the view state by cases on the payload. \<open>big_image_of\<close> and
  \<open>small_image_of\<close> are the values of \<open>bigImage\<close> and \<open>smallImage\<close> after both
  assignments.
\<close>

definition big_image_of :: "LanyardData \<Rightarrow> jsstring option" where
  "big_image_of data =
     (case currentActivity (ld_activities data) of
        None \<Rightarrow> Some []
      | Some a \<Rightarrow>
          (case Option.bind (ac_assets a) large_image of
             None \<Rightarrow> Some []
           | Some img \<Rightarrow>
               if includes_js img ''spotify''
               then (case ld_spotify data of Null \<Rightarrow> None | NonNull sp \<Rightarrow> Some (sp_album_art_url sp))
               else if img = [] then Some []
               else if includes_js img ''external''
               then Some (''https://media.discordapp.net/external/'' @ tmpl (external_segment img))
               else Some (''https://cdn.discordapp.com/app-assets/'' @ ac_application_id a
                          @ ''/'' @ img @ ''.png'')))"

definition small_image_of :: "LanyardData \<Rightarrow> jsstring" where
  "small_image_of data =
     (case currentActivity (ld_activities data) of
        None \<Rightarrow> ''https://cdn.discordapp.com/app-assets/undefined/undefined.png''
      | Some a \<Rightarrow>
          (case Option.bind (ac_assets a) small_image of
             None \<Rightarrow>
               if truthy_bool (mentions_spotify (Some a)) then []
               else ''https://cdn.discordapp.com/app-assets/'' @ ac_application_id a
                    @ ''/undefined.png''
           | Some img \<Rightarrow>
               if img = [] \<and> truthy_bool (mentions_spotify (Some a)) then []
               else if includes_js img ''external''
               then ''https://media.discordapp.net/external/'' @ tmpl (external_segment img)
               else ''https://cdn.discordapp.com/app-assets/'' @ ac_application_id a
                    @ ''/'' @ img @ ''.png''))"

definition view_of :: "LanyardData \<Rightarrow> ProfileData" where
  "view_of data =
     (currentData_init data)
       \<lparr>pd_activity := (pd_activity (currentData_init data))
          \<lparr>pa_bigImage := big_image_of data, pa_smallImage := Some (small_image_of data)\<rparr>\<rparr>"

section \<open>Unfolding and evaluation rules\<close>

lemmas normalize_defs [lp_defs] =
  currentActivity_def cur_large_image_def cur_small_image_def mentions_spotify_def
  currentData_init_def external_segment_def external_url_def app_asset_url_def
  large_image_url_def small_image_url_def assign_bigImage_def assign_smallImage_def
  currentData_def

lemmas view_defs [lp_defs] = big_image_of_def small_image_of_def view_of_def

lemma cur_image_simps [simp]:
  "cur_large_image None = None"
  "cur_large_image (Some a) = Option.bind (ac_assets a) large_image"
  "cur_small_image None = None"
  "cur_small_image (Some a) = Option.bind (ac_assets a) small_image"
  "mentions_spotify None = None"
  by (simp_all add: cur_large_image_def cur_small_image_def mentions_spotify_def)

lemma cur_large_image_SomeD:
  "cur_large_image cur = Some img \<Longrightarrow>
     \<exists>a. cur = Some a \<and> Option.bind (ac_assets a) large_image = Some img"
  by (cases cur) simp_all

lemma cur_small_image_SomeD:
  "cur_small_image cur = Some img \<Longrightarrow>
     \<exists>a. cur = Some a \<and> Option.bind (ac_assets a) small_image = Some img"
  by (cases cur) simp_all

lemma mentions_spotify_Some:
  "cur_large_image cur = Some img \<Longrightarrow> mentions_spotify cur = Some (includes_js img ''spotify'')"
  by (simp add: mentions_spotify_def)

lemma mentions_spotify_truthy:
  "truthy_bool (mentions_spotify cur) \<longleftrightarrow>
     (\<exists>img. cur_large_image cur = Some img \<and> includes_js img ''spotify'')"
  by (cases "cur_large_image cur") (simp_all add: mentions_spotify_def)

text \<open>The segment that \<open>split("mp:external/")[1]\<close> reads, by the first occurrences.\<close>

lemma external_segment_eval:
  "external_segment img =
     (case first_occ ''mp:external/'' img of
        None \<Rightarrow> None
      | Some j \<Rightarrow>
          Some (case first_occ ''mp:external/'' (drop (j + length ''mp:external/'') img) of
                  None \<Rightarrow> drop (j + length ''mp:external/'') img
                | Some k \<Rightarrow> take k (drop (j + length ''mp:external/'') img)))"
  unfolding external_segment_def One_nat_def split_js_second
  by (rule split_all_second) simp

lemma external_segment_None:
  "\<not> includes_js img ''mp:external/'' \<Longrightarrow> external_segment img = None"
  by (simp add: external_segment_eval includes_js_first_occ)

lemma external_segment_prefix:
  "\<not> includes_js rest ''mp:external/'' \<Longrightarrow> external_segment (''mp:external/'' @ rest) = Some rest"
  by (simp add: external_segment_eval includes_js_first_occ)

lemma external_marker: "includes_js (''mp:external/'' @ rest) ''external''"
  by (rule includes_js_trans [of _ "''mp:external/''"]) (simp_all add: includes_js_first_occ)

section \<open>The current activity\<close>

lemma currentActivity_None: "currentActivity acts = None \<longleftrightarrow> (\<forall>a \<in> set acts. ac_type a = 4)"
  by (auto simp: currentActivity_def find_None_iff)

lemma currentActivity_Cons:
  "currentActivity (a # acts) = (if ac_type a \<noteq> 4 then Some a else currentActivity acts)"
  by (simp add: currentActivity_def)

text \<open>
  C7. The current activity is the first entry of \<open>activities\<close> whose type code
  is not 4: it is an entry of the list, it is no custom status, and every entry
  before it is one.
\<close>

theorem currentActivity_first_non_custom:
  assumes "currentActivity acts = Some a"
  shows "\<exists>i < length acts. acts ! i = a \<and> ac_type a \<noteq> 4 \<and> (\<forall>j < i. ac_type (acts ! j) = 4)"
  using assms unfolding currentActivity_def by (auto dest!: find_first_match)

theorem currentActivity_first_non_custom_witness:
  "currentActivity [custom_status, game_activity, spotify_activity] = Some game_activity \<and>
   (\<exists>i < length [custom_status, game_activity, spotify_activity].
      [custom_status, game_activity, spotify_activity] ! i = game_activity \<and>
      ac_type game_activity \<noteq> 4 \<and>
      (\<forall>j < i. ac_type ([custom_status, game_activity, spotify_activity] ! j) = 4))"
proof -
  have "currentActivity [custom_status, game_activity, spotify_activity] = Some game_activity"
    by (simp add: currentActivity_def custom_status_def game_activity_def)
  then show ?thesis
    using currentActivity_first_non_custom by blast
qed

section \<open>The normalisation completes\<close>

text \<open>
  Under the test of line 123 \<open>large_image\<close> is a nonempty string, so the calls of
  \<open>includes\<close> and \<open>split\<close> in lines 124 and 125 have a receiver.
\<close>

lemma large_image_url_Some:
  assumes "cur_large_image cur = Some img"
  shows "large_image_url cur =
     Inr (if includes_js img ''external'' then external_url (external_segment img)
          else app_asset_url (map_option ac_application_id cur) (Some img))"
proof -
  from assms obtain a assets where "cur = Some a" and "ac_assets a = Some assets"
    and "large_image assets = Some img"
    by (auto dest!: cur_large_image_SomeD simp: bind_eq_Some_conv)
  then show ?thesis by (simp add: large_image_url_def)
qed

text \<open>The one way in which the right-hand side throws.\<close>

lemma large_image_url_throws:
  "large_image_url cur = Inl e \<longleftrightarrow>
     e = TypeError \<and> (\<exists>a assets. cur = Some a \<and> ac_assets a = Some assets \<and>
       large_image assets = None)"
  by (auto simp: large_image_url_def bind_eq_Some_conv split: option.splits)

lemma large_image_url_guarded:
  "truthy (cur_large_image cur) \<Longrightarrow> \<exists>url. large_image_url cur = Inr url"
  by (cases "cur_large_image cur") (simp_all add: large_image_url_Some)

lemma assign_bigImage_total: "\<exists>pd'. assign_bigImage cur pd = Inr pd'"
  using large_image_url_guarded [of cur] by (auto simp: assign_bigImage_def)

lemma currentData_InrE:
  assumes "currentData data = Inr pd"
  obtains pd1 where
    "assign_bigImage (currentActivity (ld_activities data)) (currentData_init data) = Inr pd1"
    and "pd = assign_smallImage (currentActivity (ld_activities data)) pd1"
  using assms by (auto simp: currentData_def Let_def split: sum.splits)

text \<open>
  C1. The normalisation never throws: for every payload of the declared type
  the body of \<open>fetchUserData\<close> between the parse and \<open>setProfileData\<close> runs to
  its end and yields a view state.
\<close>

theorem currentData_never_throws: "\<exists>pd. currentData data = Inr pd"
proof -
  obtain pd1 where
    "assign_bigImage (currentActivity (ld_activities data)) (currentData_init data) = Inr pd1"
    using assign_bigImage_total by blast
  then show ?thesis by (simp add: currentData_def)
qed

section \<open>What each assignment changes\<close>

lemma assign_bigImage_only:
  "assign_bigImage cur pd = Inr pd' \<Longrightarrow>
     pd' = pd\<lparr>pd_activity := (pd_activity pd)\<lparr>pa_bigImage := pa_bigImage (pd_activity pd')\<rparr>\<rparr>"
  by (auto simp: assign_bigImage_def split: if_splits sum.splits)

lemma assign_smallImage_only:
  "assign_smallImage cur pd =
     pd\<lparr>pd_activity := (pd_activity pd)
        \<lparr>pa_smallImage := pa_smallImage (pd_activity (assign_smallImage cur pd))\<rparr>\<rparr>"
  by (simp add: assign_smallImage_def)

text \<open>
  The members of the view state that the two assignments leave as the object
  literal set them.
\<close>

lemma currentData_frame:
  assumes "currentData data = Inr pd"
  shows "pd_avatar pd = pd_avatar (currentData_init data)"
    and "pd_discordStatus pd = pd_discordStatus (currentData_init data)"
    and "pd_username pd = pd_username (currentData_init data)"
    and "pd_status pd = pd_status (currentData_init data)"
    and "pa_hidden (pd_activity pd) = pa_hidden (pd_activity (currentData_init data))"
    and "pa_bigImageTitle (pd_activity pd) = pa_bigImageTitle (pd_activity (currentData_init data))"
    and "pa_name (pd_activity pd) = pa_name (pd_activity (currentData_init data))"
    and "pa_state (pd_activity pd) = pa_state (pd_activity (currentData_init data))"
    and "pa_details (pd_activity pd) = pa_details (pd_activity (currentData_init data))"
proof -
  from assms obtain pd1 where
    1: "assign_bigImage (currentActivity (ld_activities data)) (currentData_init data) = Inr pd1"
    and 2: "pd = assign_smallImage (currentActivity (ld_activities data)) pd1"
    by (rule currentData_InrE)
  note big = assign_bigImage_only [OF 1]
  note small = assign_smallImage_only [of "currentActivity (ld_activities data)" pd1]
  show "pd_avatar pd = pd_avatar (currentData_init data)"
    and "pd_discordStatus pd = pd_discordStatus (currentData_init data)"
    and "pd_username pd = pd_username (currentData_init data)"
    and "pd_status pd = pd_status (currentData_init data)"
    and "pa_hidden (pd_activity pd) = pa_hidden (pd_activity (currentData_init data))"
    and "pa_bigImageTitle (pd_activity pd) = pa_bigImageTitle (pd_activity (currentData_init data))"
    and "pa_name (pd_activity pd) = pa_name (pd_activity (currentData_init data))"
    and "pa_state (pd_activity pd) = pa_state (pd_activity (currentData_init data))"
    and "pa_details (pd_activity pd) = pa_details (pd_activity (currentData_init data))"
    unfolding 2 by (subst small, subst big, simp)+
qed

section \<open>The normalisation computes the view\<close>

lemma init_bigImage:
  "pa_bigImage (pd_activity (currentData_init data)) =
     (if truthy_bool (mentions_spotify (currentActivity (ld_activities data)))
      then chain_null (ld_spotify data) sp_album_art_url else Some [])"
  by (simp add: currentData_init_def Let_def)

lemma assign_bigImage_value:
  assumes init: "pa_bigImage (pd_activity pd) = pa_bigImage (pd_activity (currentData_init data))"
    and run: "assign_bigImage (currentActivity (ld_activities data)) pd = Inr pd'"
  shows "pa_bigImage (pd_activity pd') = big_image_of data"
proof (cases "currentActivity (ld_activities data)")
  case None
  with init run show ?thesis
    by (simp add: assign_bigImage_def big_image_of_def init_bigImage)
next
  case (Some a)
  show ?thesis
  proof (cases "Option.bind (ac_assets a) large_image")
    case None
    with Some init run show ?thesis
      by (simp add: assign_bigImage_def big_image_of_def init_bigImage mentions_spotify_def)
  next
    case img: (Some img)
    show ?thesis
    proof (cases "includes_js img ''spotify'' \<or> img = []")
      case True
      with Some img init run show ?thesis
        by (auto simp: assign_bigImage_def big_image_of_def init_bigImage mentions_spotify_def
            split: nullable.splits)
    next
      case False
      with Some img init run show ?thesis
        by (auto simp: assign_bigImage_def big_image_of_def mentions_spotify_def
            large_image_url_Some external_url_def app_asset_url_def)
    qed
  qed
qed

lemma assign_smallImage_value:
  assumes "pa_smallImage (pd_activity pd) = Some []"
  shows "pa_smallImage (pd_activity (assign_smallImage (currentActivity (ld_activities data)) pd))
     = Some (small_image_of data)"
proof (cases "currentActivity (ld_activities data)")
  case None
  then show ?thesis
    by (simp add: assign_smallImage_def small_image_of_def small_image_url_def app_asset_url_def)
next
  case (Some a)
  show ?thesis
  proof (cases "Option.bind (ac_assets a) small_image")
    case None
    with Some assms show ?thesis
      by (simp add: assign_smallImage_def small_image_of_def small_image_url_def
          app_asset_url_def)
  next
    case img: (Some img)
    with Some assms show ?thesis
      by (simp add: assign_smallImage_def small_image_of_def small_image_url_def
          app_asset_url_def external_url_def)
  qed
qed

lemma currentData_view: "currentData data = Inr (view_of data)"
proof -
  let ?cur = "currentActivity (ld_activities data)"
  obtain pd1 where 1: "assign_bigImage ?cur (currentData_init data) = Inr pd1"
    using assign_bigImage_total by blast
  have big: "pa_bigImage (pd_activity pd1) = big_image_of data"
    using refl 1 by (rule assign_bigImage_value)
  have small0: "pa_smallImage (pd_activity pd1) = Some []"
    by (subst assign_bigImage_only [OF 1]) (simp add: currentData_init_def Let_def)
  have small: "pa_smallImage (pd_activity (assign_smallImage ?cur pd1)) = Some (small_image_of data)"
    using small0 by (rule assign_smallImage_value)
  have pd1: "pd1 = (currentData_init data)
      \<lparr>pd_activity := (pd_activity (currentData_init data))\<lparr>pa_bigImage := big_image_of data\<rparr>\<rparr>"
    unfolding big [symmetric] by (rule assign_bigImage_only [OF 1])
  have "assign_smallImage ?cur pd1
      = pd1\<lparr>pd_activity := (pd_activity pd1)\<lparr>pa_smallImage := Some (small_image_of data)\<rparr>\<rparr>"
    unfolding small [symmetric] by (rule assign_smallImage_only)
  also have "\<dots> = view_of data"
    by (subst (1 2) pd1) (simp add: view_of_def)
  finally show ?thesis
    using 1 by (simp add: currentData_def)
qed

lemma currentData_Inr_iff: "currentData data = Inr pd \<longleftrightarrow> pd = view_of data"
  by (auto simp: currentData_view)

text \<open>
  C2. The normalisation implements the view function: the object literal
  followed by the two conditional assignments, with its \<open>TypeError\<close> branch,
  returns exactly \<open>view_of\<close> of the payload.
\<close>

theorem currentData_refines_view: "currentData data = Inr (view_of data)"
  by (rule currentData_view)

section \<open>Evaluation on concrete payloads\<close>

lemmas payload_eval =
  example_defs view_of_def big_image_of_def small_image_of_def currentData_init_def
  currentActivity_def mentions_spotify_def includes_js_first_occ external_segment_eval
  USERID_def populated_def

section \<open>Status and visibility\<close>

lemma view_of_frame [simp]:
  "pd_avatar (view_of data) = pd_avatar (currentData_init data)"
  "pd_discordStatus (view_of data) = pd_discordStatus (currentData_init data)"
  "pd_username (view_of data) = pd_username (currentData_init data)"
  "pd_status (view_of data) = pd_status (currentData_init data)"
  "pa_hidden (pd_activity (view_of data)) = pa_hidden (pd_activity (currentData_init data))"
  "pa_bigImageTitle (pd_activity (view_of data)) = pa_bigImageTitle (pd_activity (currentData_init data))"
  "pa_name (pd_activity (view_of data)) = pa_name (pd_activity (currentData_init data))"
  "pa_state (pd_activity (view_of data)) = pa_state (pd_activity (currentData_init data))"
  "pa_details (pd_activity (view_of data)) = pa_details (pd_activity (currentData_init data))"
  "pa_bigImage (pd_activity (view_of data)) = big_image_of data"
  "pa_smallImage (pd_activity (view_of data)) = Some (small_image_of data)"
  by (simp_all add: view_of_def)

text \<open>
  C11. The activity card is hidden exactly when the Discord status is
  \<open>offline\<close>, and the status line is empty exactly then: for every other status
  it is the quoted state, which is never the empty string.
\<close>

theorem offline_hides_activity:
  assumes "currentData data = Inr pd"
  shows "(pa_hidden (pd_activity pd) \<longleftrightarrow> ld_discord_status data = ''offline'') \<and>
         (pd_status pd = [] \<longleftrightarrow> ld_discord_status data = ''offline'')"
  using assms by (simp add: currentData_Inr_iff currentData_init_def Let_def)

theorem offline_hides_activity_witness:
  "currentData (payload ''offline'' [game_activity] Null)
     = Inr (view_of (payload ''offline'' [game_activity] Null)) \<and>
   pa_hidden (pd_activity (view_of (payload ''offline'' [game_activity] Null))) \<and>
   pd_status (view_of (payload ''offline'' [game_activity] Null)) = []"
  using offline_hides_activity [OF currentData_view, of "payload ''offline'' [game_activity] Null"]
  by (simp add: currentData_view payload_def)

section \<open>No activity to show\<close>

text \<open>
  C19. When \<open>activities\<close> is empty or holds custom statuses only, the activity
  name is the placeholder, state, details and big image are empty strings, and
  whether the card is hidden depends on the Discord status alone.
\<close>

theorem no_activity_placeholder:
  assumes "currentData data = Inr pd"
    and "\<forall>a \<in> set (ld_activities data). ac_type a = 4"
  shows "pa_name (pd_activity pd) = Some ''doing yo moma'' \<and>
         pa_state (pd_activity pd) = Some [] \<and>
         pa_details (pd_activity pd) = Some [] \<and>
         pa_bigImage (pd_activity pd) = Some [] \<and>
         pa_hidden (pd_activity pd) = (ld_discord_status data = ''offline'')"
proof -
  from assms(2) have "currentActivity (ld_activities data) = None"
    by (simp add: currentActivity_None)
  with assms(1) show ?thesis
    by (simp add: currentData_Inr_iff currentData_init_def big_image_of_def)
qed

theorem no_activity_placeholder_witness:
  "currentData (payload ''idle'' [custom_status] Null)
     = Inr (view_of (payload ''idle'' [custom_status] Null)) \<and>
   currentActivity (ld_activities (payload ''idle'' [custom_status] Null)) = None \<and>
   pa_name (pd_activity (view_of (payload ''idle'' [custom_status] Null))) = Some ''doing yo moma'' \<and>
   \<not> pa_hidden (pd_activity (view_of (payload ''idle'' [custom_status] Null)))"
  using no_activity_placeholder [OF currentData_view, of "payload ''idle'' [custom_status] Null"]
  by (simp add: currentData_view payload_def custom_status_def currentActivity_def)

text \<open>
  C12. With no activity to show the small image is not empty: the second
  assignment runs, because \<open>large_image\<close> is \<open>undefined\<close> and so does not
  mention Spotify, and its template literal prints \<open>undefined\<close> twice.
\<close>

theorem no_activity_small_image:
  assumes "currentData data = Inr pd"
    and "\<forall>a \<in> set (ld_activities data). ac_type a = 4"
  shows "pa_smallImage (pd_activity pd)
           = Some ''https://cdn.discordapp.com/app-assets/undefined/undefined.png''"
proof -
  from assms(2) have "currentActivity (ld_activities data) = None"
    by (simp add: currentActivity_None)
  with assms(1) show ?thesis
    by (simp add: currentData_Inr_iff small_image_of_def)
qed

theorem no_activity_small_image_witness:
  "currentData (payload ''online'' [] Null) = Inr (view_of (payload ''online'' [] Null)) \<and>
   currentActivity (ld_activities (payload ''online'' [] Null)) = None \<and>
   pa_smallImage (pd_activity (view_of (payload ''online'' [] Null)))
     = Some ''https://cdn.discordapp.com/app-assets/undefined/undefined.png''"
  using no_activity_small_image [OF currentData_view, of "payload ''online'' [] Null"]
  by (simp add: currentData_view payload_def currentActivity_def)

section \<open>The big image\<close>

text \<open>The value of \<open>bigImage\<close> by cases on \<open>large_image\<close> of the current activity.\<close>

lemma big_image_of_cases:
  "big_image_of data =
     (case cur_large_image (currentActivity (ld_activities data)) of
        None \<Rightarrow> Some []
      | Some img \<Rightarrow>
          if includes_js img ''spotify'' then chain_null (ld_spotify data) sp_album_art_url
          else if img = [] then Some []
          else if includes_js img ''external'' then Some (external_url (external_segment img))
          else Some (app_asset_url
                 (map_option ac_application_id (currentActivity (ld_activities data))) (Some img)))"
  by (cases "currentActivity (ld_activities data)")
    (simp_all add: big_image_of_def external_url_def app_asset_url_def chain_null_def
      split: option.split)

text \<open>
  C15. When the large image of the current activity mentions \<open>spotify\<close> and the
  payload carries Spotify data, the big image is the album art address of the
  payload, verbatim, and its title is the album, whatever else the asset key
  says.
\<close>

theorem spotify_album_art:
  assumes "currentData data = Inr pd"
    and "cur_large_image (currentActivity (ld_activities data)) = Some img"
    and "includes_js img ''spotify''"
    and "ld_spotify data = NonNull sp"
  shows "pa_bigImage (pd_activity pd) = Some (sp_album_art_url sp) \<and>
         pa_bigImageTitle (pd_activity pd) = Some (sp_album sp)"
  using assms
  by (simp add: currentData_Inr_iff big_image_of_cases currentData_init_def Let_def
      mentions_spotify_Some)

theorem spotify_album_art_witness:
  "currentData (payload ''online'' [custom_status, spotify_activity] (NonNull example_track))
     = Inr (view_of (payload ''online'' [custom_status, spotify_activity] (NonNull example_track))) \<and>
   cur_large_image (currentActivity
      (ld_activities (payload ''online'' [custom_status, spotify_activity] (NonNull example_track))))
     = Some ''spotify:ab67616d'' \<and>
   includes_js ''spotify:ab67616d'' ''spotify'' \<and>
   pa_bigImage (pd_activity
      (view_of (payload ''online'' [custom_status, spotify_activity] (NonNull example_track))))
     = Some ''https://i.scdn.co/image/ab67616d''"
  using spotify_album_art [OF currentData_view,
      of "payload ''online'' [custom_status, spotify_activity] (NonNull example_track)"
         "''spotify:ab67616d''" example_track]
  by (simp add: currentData_view payload_eval)

lemma populated_view:
  "populated (view_of data) \<longleftrightarrow>
     \<not> (truthy_bool (mentions_spotify (currentActivity (ld_activities data))) \<and>
        ld_spotify data = Null)"
proof (cases "cur_large_image (currentActivity (ld_activities data))")
  case None
  then show ?thesis
    by (simp add: populated_def big_image_of_cases currentData_init_def Let_def
        mentions_spotify_def)
next
  case (Some img)
  then show ?thesis
    by (cases "ld_spotify data")
      (simp_all add: populated_def big_image_of_cases currentData_init_def Let_def
        mentions_spotify_def)
qed

text \<open>
  C8. The view state is populated, that is every member the renderer reads is
  defined, in all cases but one: the large image mentions \<open>spotify\<close> while the
  \<open>spotify\<close> member of the payload is \<open>null\<close>. Then \<open>bigImage\<close> is \<open>undefined\<close>.
\<close>

theorem populated_iff:
  assumes "currentData data = Inr pd"
  shows "populated pd \<longleftrightarrow>
     \<not> (truthy_bool (mentions_spotify (currentActivity (ld_activities data))) \<and>
        ld_spotify data = Null)"
  using assms by (simp add: currentData_Inr_iff populated_view)

theorem populated_iff_witness:
  "currentData (payload ''online'' [spotify_activity] Null)
     = Inr (view_of (payload ''online'' [spotify_activity] Null)) \<and>
   \<not> populated (view_of (payload ''online'' [spotify_activity] Null)) \<and>
   pa_bigImage (pd_activity (view_of (payload ''online'' [spotify_activity] Null))) = None"
  using populated_iff [OF currentData_view, of "payload ''online'' [spotify_activity] Null"]
  by (simp add: currentData_view payload_eval)

text \<open>
  C13. A large image \<open>mp:external/\<close> followed by a path that holds no further
  \<open>mp:external/\<close> resolves to the media proxy address with that path.
\<close>

theorem external_proxy_url:
  assumes "currentData data = Inr pd"
    and "cur_large_image (currentActivity (ld_activities data)) = Some (''mp:external/'' @ rest)"
    and "\<not> includes_js (''mp:external/'' @ rest) ''spotify''"
    and "\<not> includes_js rest ''mp:external/''"
  shows "pa_bigImage (pd_activity pd) = Some (''https://media.discordapp.net/external/'' @ rest)"
proof -
  have "external_segment (''mp:external/'' @ rest) = Some rest"
    using assms(4) by (rule external_segment_prefix)
  with assms(1-3) external_marker [of rest] show ?thesis
    by (simp add: currentData_Inr_iff big_image_of_cases external_url_def)
qed

theorem external_proxy_url_witness:
  "currentData (payload ''dnd'' [proxied_activity] Null)
     = Inr (view_of (payload ''dnd'' [proxied_activity] Null)) \<and>
   cur_large_image (currentActivity (ld_activities (payload ''dnd'' [proxied_activity] Null)))
     = Some (''mp:external/'' @ ''foo.png'') \<and>
   \<not> includes_js (''mp:external/'' @ ''foo.png'') ''spotify'' \<and>
   \<not> includes_js ''foo.png'' ''mp:external/'' \<and>
   pa_bigImage (pd_activity (view_of (payload ''dnd'' [proxied_activity] Null)))
     = Some ''https://media.discordapp.net/external/foo.png''"
  using external_proxy_url [OF currentData_view, of "payload ''dnd'' [proxied_activity] Null"
      "''foo.png''"]
  by (simp add: currentData_view payload_eval)

text \<open>
  C14. A nonempty large image that mentions neither \<open>spotify\<close> nor \<open>external\<close>
  resolves to the application asset address built from the application
  identifier of the current activity and the asset key.
\<close>

theorem cdn_asset_url:
  assumes "currentData data = Inr pd"
    and "currentActivity (ld_activities data) = Some a"
    and "cur_large_image (Some a) = Some img"
    and "img \<noteq> []"
    and "\<not> includes_js img ''spotify''"
    and "\<not> includes_js img ''external''"
  shows "pa_bigImage (pd_activity pd)
           = Some (''https://cdn.discordapp.com/app-assets/'' @ ac_application_id a
                   @ ''/'' @ img @ ''.png'')"
  using assms
  by (simp add: currentData_Inr_iff big_image_of_cases app_asset_url_def)

theorem cdn_asset_url_witness:
  "currentData (payload ''online'' [custom_status, game_activity] Null)
     = Inr (view_of (payload ''online'' [custom_status, game_activity] Null)) \<and>
   currentActivity (ld_activities (payload ''online'' [custom_status, game_activity] Null))
     = Some game_activity \<and>
   cur_large_image (Some game_activity) = Some ''565945350645628958'' \<and>
   pa_bigImage (pd_activity (view_of (payload ''online'' [custom_status, game_activity] Null)))
     = Some ''https://cdn.discordapp.com/app-assets/383226320970055681/565945350645628958.png''"
  using cdn_asset_url [OF currentData_view,
      of "payload ''online'' [custom_status, game_activity] Null" game_activity
         "''565945350645628958''"]
  by (simp add: currentData_view payload_eval)

text \<open>
  C16. The test for a proxied image looks for \<open>external\<close>, the split for
  \<open>mp:external/\<close>. An asset key that holds the first and not the second has no
  segment at index 1, and the big image is the proxy address of \<open>undefined\<close>.
\<close>

theorem external_marker_mismatch:
  assumes "currentData data = Inr pd"
    and "cur_large_image (currentActivity (ld_activities data)) = Some img"
    and "includes_js img ''external''"
    and "\<not> includes_js img ''mp:external/''"
    and "\<not> includes_js img ''spotify''"
  shows "pa_bigImage (pd_activity pd) = Some ''https://media.discordapp.net/external/undefined''"
proof -
  from assms(3) have "img \<noteq> []" by auto
  with assms show ?thesis
    by (simp add: currentData_Inr_iff big_image_of_cases external_url_def external_segment_None)
qed

theorem external_marker_mismatch_witness:
  "currentData (payload ''online'' [mislabelled_activity] Null)
     = Inr (view_of (payload ''online'' [mislabelled_activity] Null)) \<and>
   cur_large_image (currentActivity (ld_activities (payload ''online'' [mislabelled_activity] Null)))
     = Some ''external_link'' \<and>
   includes_js ''external_link'' ''external'' \<and>
   \<not> includes_js ''external_link'' ''mp:external/'' \<and>
   pa_bigImage (pd_activity (view_of (payload ''online'' [mislabelled_activity] Null)))
     = Some ''https://media.discordapp.net/external/undefined''"
  using external_marker_mismatch [OF currentData_view,
      of "payload ''online'' [mislabelled_activity] Null" "''external_link''"]
  by (simp add: currentData_view payload_eval)

section \<open>The small image\<close>

text \<open>
  C17. A nonempty small image resolves like the large one, without the Spotify
  case: to the media proxy address of the segment after \<open>mp:external/\<close> when it
  mentions \<open>external\<close>, otherwise to the application asset address.
\<close>

theorem small_image_resolution:
  assumes "currentData data = Inr pd"
    and "currentActivity (ld_activities data) = Some a"
    and "cur_small_image (Some a) = Some img"
    and "img \<noteq> []"
  shows "pa_smallImage (pd_activity pd) =
     Some (if includes_js img ''external''
           then ''https://media.discordapp.net/external/'' @ tmpl (external_segment img)
           else ''https://cdn.discordapp.com/app-assets/'' @ ac_application_id a
                @ ''/'' @ img @ ''.png'')"
  using assms by (simp add: currentData_Inr_iff small_image_of_def)

theorem small_image_resolution_witness:
  "currentData (payload ''online'' [game_activity] Null)
     = Inr (view_of (payload ''online'' [game_activity] Null)) \<and>
   currentActivity (ld_activities (payload ''online'' [game_activity] Null)) = Some game_activity \<and>
   cur_small_image (Some game_activity) = Some ''mp:external/ab/https/x.org/s.png'' \<and>
   pa_smallImage (pd_activity (view_of (payload ''online'' [game_activity] Null)))
     = Some ''https://media.discordapp.net/external/ab/https/x.org/s.png''"
  using small_image_resolution [OF currentData_view,
      of "payload ''online'' [game_activity] Null" game_activity
         "''mp:external/ab/https/x.org/s.png''"]
  by (simp add: currentData_view payload_eval)

text \<open>
  C18. The asymmetry of the second assignment. For a current activity without a
  small image (absent or empty) the small image stays empty only when the large
  image mentions \<open>spotify\<close>; otherwise the assignment runs and builds an asset
  address from the missing key, \<open>undefined.png\<close> when the key is absent.
\<close>

theorem small_image_without_key:
  assumes "currentData data = Inr pd"
    and "currentActivity (ld_activities data) = Some a"
    and "\<not> truthy (cur_small_image (Some a))"
  shows "pa_smallImage (pd_activity pd) =
     Some (if truthy_bool (mentions_spotify (Some a)) then []
           else ''https://cdn.discordapp.com/app-assets/'' @ ac_application_id a
                @ ''/'' @ tmpl (cur_small_image (Some a)) @ ''.png'')"
  using assms
  by (cases "Option.bind (ac_assets a) small_image")
    (simp_all add: currentData_Inr_iff small_image_of_def includes_js_first_occ)

theorem small_image_without_key_witness:
  "currentData (payload ''online'' [proxied_activity] Null)
     = Inr (view_of (payload ''online'' [proxied_activity] Null)) \<and>
   currentActivity (ld_activities (payload ''online'' [proxied_activity] Null))
     = Some proxied_activity \<and>
   \<not> truthy (cur_small_image (Some proxied_activity)) \<and>
   pa_smallImage (pd_activity (view_of (payload ''online'' [proxied_activity] Null)))
     = Some ''https://cdn.discordapp.com/app-assets/999/undefined.png''"
  using small_image_without_key [OF currentData_view,
      of "payload ''online'' [proxied_activity] Null" proxied_activity]
  by (simp add: currentData_view payload_eval)

section \<open>The activity name\<close>

text \<open>
  C20. The activity name of the view state is never empty: it is the name of
  the current activity when there is one with a nonempty name, and the
  placeholder otherwise.
\<close>

theorem activity_name_shown:
  assumes "currentData data = Inr pd"
  shows "\<exists>n. pa_name (pd_activity pd) = Some n \<and> n \<noteq> [] \<and>
    n = (case currentActivity (ld_activities data) of
           None \<Rightarrow> ''doing yo moma''
         | Some a \<Rightarrow> if ac_name a = [] then ''doing yo moma'' else ac_name a)"
  using assms
  by (cases "currentActivity (ld_activities data)")
    (simp_all add: currentData_Inr_iff currentData_init_def Let_def)

theorem activity_name_shown_witness:
  "currentData (payload ''online'' [game_activity] Null)
     = Inr (view_of (payload ''online'' [game_activity] Null)) \<and>
   pa_name (pd_activity (view_of (payload ''online'' [game_activity] Null)))
     = Some ''Visual Studio Code''"
  using activity_name_shown [OF currentData_view, of "payload ''online'' [game_activity] Null"]
  by (simp add: currentData_view payload_eval)

end
