(* ===== verification/Lanyard_Fetch.thy ===== *)
theory Lanyard_Fetch
  imports Lanyard_Normalize
begin

text \<open>
  The whole of \<open>fetchUserData\<close> (lines 95 to 144 of
  \<^verbatim>\<open>src/src/LanyardProfile.tsx\<close>): the request, the parse of the reply, the
  normalisation, the update of the component state, and the \<open>catch\<close> that logs
  whatever was thrown.

  The network is not part of the model: what the service answers is a value of
  type \<open>reply\<close>, an input of the function. The component state that the function
  can change is the view state held by \<open>useState\<close> and the console, which
  records the argument of each \<open>console.error\<close>.
\<close>

section \<open>The request and its reply\<close>

text \<open>\<open>`${API_URL}/users/${USERID}`\<close>\<close>

definition request_url :: jsstring where
  "request_url = API_URL @ ''/users/'' @ USERID"

text \<open>
  The ways the two awaits of lines 97 and 98 can end: the promise of \<open>fetch\<close>
  rejects; the promise of \<open>res.json()\<close> rejects because the body is no JSON text;
  or the body parses, and its member \<open>data\<close> is a payload or is missing
  (\<open>Envelope None\<close>: any JSON value without a usable \<open>data\<close>, such as the error
  reply of the service).
\<close>

datatype reply = FetchFailed | BodyInvalid | Envelope "LanyardData option"

text \<open>
  Lines 97 to 100: the payload on which the normalisation runs. Destructuring
  an absent \<open>data\<close> in line 100 raises a \<open>TypeError\<close>.
\<close>

definition parse_reply :: "reply \<Rightarrow> js_error + LanyardData" where
  "parse_reply r =
     (case r of
        FetchFailed \<Rightarrow> Inl FetchRejected
      | BodyInvalid \<Rightarrow> Inl JsonRejected
      | Envelope None \<Rightarrow> Inl TypeError
      | Envelope (Some data) \<Rightarrow> Inr data)"

text \<open>The \<open>try\<close> block up to the argument of \<open>setProfileData\<close>.\<close>

definition try_block :: "reply \<Rightarrow> js_error + ProfileData" where
  "try_block r = (case parse_reply r of Inl e \<Rightarrow> Inl e | Inr data \<Rightarrow> currentData data)"

section \<open>The state update\<close>

text \<open>
  The updater \<open>(prevData) => ({...prevData, ...currentData})\<close>: a shallow merge.
  Every member of \<open>currentData\<close> overwrites the member of the same name, the
  nested \<open>activity\<close> object as a whole.
\<close>

definition merge_profile :: "ProfileData \<Rightarrow> ProfileData \<Rightarrow> ProfileData" where
  "merge_profile prevData cur =
     prevData\<lparr> pd_avatar := pd_avatar cur,
               pd_discordStatus := pd_discordStatus cur,
               pd_username := pd_username cur,
               pd_status := pd_status cur,
               pd_activity := pd_activity cur \<rparr>"

record widget =
  profileData :: ProfileData
  console :: "js_error list"

text \<open>
  \<open>fetchUserData\<close>, given the reply that its awaits receive: on success the
  state update, on any exception the \<open>catch\<close> with its \<open>console.error\<close>.
\<close>

definition fetchUserData :: "reply \<Rightarrow> widget \<Rightarrow> widget" where
  "fetchUserData r w =
     (case try_block r of
        Inr cur \<Rightarrow> w\<lparr>profileData := merge_profile (profileData w) cur\<rparr>
      | Inl err \<Rightarrow> w\<lparr>console := console w @ [err]\<rparr>)"

text \<open>The component state before the first reply.\<close>

definition initial_widget :: "jsstring \<Rightarrow> widget" where
  "initial_widget loader = \<lparr> profileData = initialProfileData loader, console = [] \<rparr>"

section \<open>Unfolding rules\<close>

lemmas fetch_defs [lp_defs] =
  request_url_def parse_reply_def try_block_def merge_profile_def fetchUserData_def
  initial_widget_def

lemma parse_reply_simps [simp]:
  "parse_reply FetchFailed = Inl FetchRejected"
  "parse_reply BodyInvalid = Inl JsonRejected"
  "parse_reply (Envelope None) = Inl TypeError"
  "parse_reply (Envelope (Some data)) = Inr data"
  by (simp_all add: parse_reply_def)

lemma parse_reply_Inr_iff: "parse_reply r = Inr data \<longleftrightarrow> r = Envelope (Some data)"
  by (auto simp: parse_reply_def split: reply.splits option.splits)

text \<open>The merge keeps nothing of the previous view state.\<close>

lemma merge_profile_replaces [simp]: "merge_profile prevData cur = cur"
  by (simp add: merge_profile_def)

lemma try_block_success [simp]: "try_block (Envelope (Some data)) = Inr (view_of data)"
  by (simp add: try_block_def currentData_view)

lemma try_block_failure: "parse_reply r = Inl e \<Longrightarrow> try_block r = Inl e"
  by (simp add: try_block_def)

lemma try_block_cases:
  "try_block r =
     (case r of
        FetchFailed \<Rightarrow> Inl FetchRejected
      | BodyInvalid \<Rightarrow> Inl JsonRejected
      | Envelope None \<Rightarrow> Inl TypeError
      | Envelope (Some data) \<Rightarrow> Inr (view_of data))"
  by (simp add: try_block_def currentData_view split: reply.split option.split)

section \<open>The error boundary\<close>

text \<open>
  C10. A reply with a payload replaces the whole view state by the view of
  that payload, whatever was displayed before, and logs nothing.
\<close>

theorem fetchUserData_success:
  "fetchUserData (Envelope (Some data)) w = w\<lparr>profileData := view_of data\<rparr>"
  by (simp add: fetchUserData_def)

text \<open>
  C5. Every failure of the request, of the parse or of the shape of the reply
  ends in the \<open>catch\<close>: the view state is the one displayed before, and the
  console gains exactly the exception.
\<close>

theorem fetchUserData_failure:
  assumes "parse_reply r = Inl e"
  shows "fetchUserData r w = w\<lparr>console := console w @ [e]\<rparr>"
  using assms by (simp add: fetchUserData_def try_block_failure)

theorem fetchUserData_failure_witness:
  "parse_reply (Envelope None) = Inl TypeError \<and>
   profileData (fetchUserData (Envelope None) (initial_widget ''loader.gif''))
     = initialProfileData ''loader.gif'' \<and>
   console (fetchUserData (Envelope None) (initial_widget ''loader.gif'')) = [TypeError]"
  using fetchUserData_failure [of "Envelope None" TypeError "initial_widget ''loader.gif''"]
  by (simp add: initial_widget_def)

text \<open>
  C21. The view state that \<open>fetchUserData\<close> leaves is the previous one or the
  view of the payload received; so it stays populated when it was and the
  payload carries Spotify data whenever its current activity shows Spotify art.
\<close>

theorem fetchUserData_populated:
  assumes "populated (profileData w)"
    and "\<forall>data. r = Envelope (Some data) \<longrightarrow>
           truthy_bool (mentions_spotify (currentActivity (ld_activities data))) \<longrightarrow>
           ld_spotify data \<noteq> Null"
  shows "populated (profileData (fetchUserData r w))"
proof (cases "parse_reply r")
  case (Inl e)
  with assms(1) show ?thesis by (simp add: fetchUserData_def try_block_failure)
next
  case (Inr data)
  then have r: "r = Envelope (Some data)" by (simp add: parse_reply_Inr_iff)
  with assms(2) have "populated (view_of data)"
    using populated_view [of data] by simp
  with r show ?thesis by (simp add: fetchUserData_def)
qed

theorem fetchUserData_populated_witness:
  "populated (profileData (initial_widget ''loader.gif'')) \<and>
   populated (profileData (fetchUserData
      (Envelope (Some (payload ''online'' [spotify_activity] (NonNull example_track))))
      (initial_widget ''loader.gif'')))"
  using fetchUserData_populated [of "initial_widget ''loader.gif''"
      "Envelope (Some (payload ''online'' [spotify_activity] (NonNull example_track)))"]
  by (simp add: initial_widget_def populated_initial payload_def)

end
