(* ===== verification/Lanyard_Poll.thy ===== *)
theory Lanyard_Poll
  imports Lanyard_Fetch
begin

text \<open>
  The poll scheduler: the effect of lines 146 to 154 of
  \<^verbatim>\<open>src/src/LanyardProfile.tsx\<close>, which calls \<open>fetchUserData\<close> once, sets an
  interval that calls it again every 1000 ms, and clears the interval when the
  component is unmounted.

  \<open>fetchUserData\<close> is asynchronous: a call starts a request and returns; the rest
  of its body runs when the reply arrives. The model therefore has one event for
  starting the effect, one for a firing of the interval, one for the arrival of
  the reply of a pending call, and one for the cleanup. Time is not modelled:
  the interval may fire and a reply may arrive whenever they are enabled, so
  calls overlap and replies arrive in any order, as they can in the browser when
  a reply takes longer than a second.

  What React and the browser do is an assumption of the model, not code of the
  widget: the effect runs once after the first render, its cleanup runs once
  at unmount, a state update of an unmounted component is discarded, and every
  call has a promise of its own. The model names the promise of a call by a
  number: \<open>issued\<close> counts the calls made so far and \<open>pending\<close> lists the calls
  whose reply has not arrived. The source has no such numbers; they are what
  lets the model speak of overlapping calls.
\<close>

section \<open>State and events\<close>

datatype phase = Unmounted | Mounted | Disposed

record poll_state =
  phase :: phase
  interval :: bool
  pending :: "nat list"
  issued :: nat
  shown :: widget

datatype event = Mount | Tick | Settle nat reply | Unmount

text \<open>The component as rendered first, before its effect has run.\<close>

definition initial_poll :: "jsstring \<Rightarrow> poll_state" where
  "initial_poll loader =
     \<lparr> phase = Unmounted, interval = False, pending = [], issued = 0,
       shown = initial_widget loader \<rparr>"

section \<open>Steps\<close>

text \<open>
  A call of \<open>fetchUserData\<close> up to its first \<open>await\<close>: the request is sent and the
  promise of the call is pending. The number that names it is the model's, the
  next one not yet used.
\<close>

definition issue :: "poll_state \<Rightarrow> poll_state" where
  "issue s = s\<lparr>pending := pending s @ [issued s], issued := Suc (issued s)\<rparr>"

text \<open>
  The rest of the call \<open>i\<close> when its reply \<open>r\<close> arrives. The code is the same
  in both branches, \<open>fetchUserData\<close> from its first \<open>await\<close> on, which calls
  \<open>setProfileData\<close> or \<open>console.error\<close> whatever the state of the component. The
  branches differ by what React does with the update: it applies the update of
  a mounted component and discards the update of an unmounted one, so that
  only the console changes then.
\<close>

definition settle :: "nat \<Rightarrow> reply \<Rightarrow> poll_state \<Rightarrow> poll_state" where
  "settle i r s =
     (if phase s = Mounted
      then s\<lparr>pending := removeAll i (pending s), shown := fetchUserData r (shown s)\<rparr>
      else s\<lparr>pending := removeAll i (pending s),
             shown := (shown s)\<lparr>console := console (fetchUserData r (shown s))\<rparr>\<rparr>)"

text \<open>
  The effect (\<open>Mount\<close>: the first call, then \<open>setInterval\<close>), the callback of the
  interval (\<open>Tick\<close>), the arrival of a reply (\<open>Settle\<close>) and the cleanup
  (\<open>Unmount\<close>: \<open>clearInterval\<close>). \<open>None\<close> when the event cannot happen in the state.
\<close>

fun poll_step :: "event \<Rightarrow> poll_state \<Rightarrow> poll_state option" where
  "poll_step Mount s =
     (if phase s = Unmounted then Some ((issue s)\<lparr>phase := Mounted, interval := True\<rparr>)
      else None)"
| "poll_step Tick s = (if interval s then Some (issue s) else None)"
| "poll_step (Settle i r) s = (if i \<in> set (pending s) then Some (settle i r s) else None)"
| "poll_step Unmount s =
     (if phase s = Mounted then Some (s\<lparr>phase := Disposed, interval := False\<rparr>) else None)"

fun run :: "event list \<Rightarrow> poll_state \<Rightarrow> poll_state option" where
  "run [] s = Some s"
| "run (e # es) s = (case poll_step e s of None \<Rightarrow> None | Some s' \<Rightarrow> run es s')"

inductive reachable :: "jsstring \<Rightarrow> poll_state \<Rightarrow> bool" for loader where
  start: "reachable loader (initial_poll loader)"
| step: "reachable loader s \<Longrightarrow> poll_step e s = Some s' \<Longrightarrow> reachable loader s'"

section \<open>Specification\<close>

text \<open>
  What the widget displays after a sequence of events, read off the events
  alone: the view of the last payload that arrived before the cleanup.
\<close>

fun view_after :: "event list \<Rightarrow> ProfileData \<Rightarrow> ProfileData" where
  "view_after [] v = v"
| "view_after (Unmount # es) v = v"
| "view_after (Settle i (Envelope (Some data)) # es) v = view_after es (view_of data)"
| "view_after (e # es) v = view_after es v"

text \<open>
  The payload behind that view: the last one that arrived before the cleanup,
  if any, starting from \<open>d\<close>.
\<close>

fun payload_after :: "event list \<Rightarrow> LanyardData option \<Rightarrow> LanyardData option" where
  "payload_after [] d = d"
| "payload_after (Unmount # es) d = d"
| "payload_after (Settle i (Envelope (Some data)) # es) d = payload_after es (Some data)"
| "payload_after (e # es) d = payload_after es d"

definition last_payload :: "event list \<Rightarrow> LanyardData option" where
  "last_payload es = payload_after es None"

text \<open>The number of calls of \<open>fetchUserData\<close> that a sequence of events makes.\<close>

fun calls :: "event list \<Rightarrow> nat" where
  "calls [] = 0"
| "calls (Mount # es) = Suc (calls es)"
| "calls (Tick # es) = Suc (calls es)"
| "calls (e # es) = calls es"

text \<open>
  The invariant of the scheduler: the interval is live exactly while the
  component is mounted, nothing has happened before the effect ran, and the
  pending calls are distinct calls that were made.
\<close>

definition poll_inv :: "jsstring \<Rightarrow> poll_state \<Rightarrow> bool" where
  "poll_inv loader s \<longleftrightarrow>
     (interval s \<longleftrightarrow> phase s = Mounted) \<and>
     (phase s = Unmounted \<longrightarrow> s = initial_poll loader) \<and>
     distinct (pending s) \<and>
     (\<forall>i \<in> set (pending s). i < issued s)"

section \<open>Example runs\<close>

text \<open>
  Two payloads and the runs on which the closed instances are stated. In
  \<open>race_run\<close> the interval fires before the first reply arrives, and the reply of
  the second call overtakes the reply of the first.
\<close>

definition stale_payload :: LanyardData where
  "stale_payload = payload ''online'' [game_activity] Null"

definition fresh_payload :: LanyardData where
  "fresh_payload = payload ''idle'' [] Null"

definition race_run :: "event list" where
  "race_run =
     [Mount, Tick, Settle 1 (Envelope (Some fresh_payload)),
      Settle 0 (Envelope (Some stale_payload))]"

definition teardown_run :: "event list" where
  "teardown_run = [Mount, Tick, Unmount]"

section \<open>Rules for single steps\<close>

lemmas poll_defs [lp_defs] = initial_poll_def issue_def settle_def poll_inv_def

lemmas run_eval =
  poll_step.simps issue_def settle_def initial_poll_def initial_widget_def fetchUserData_def
  race_run_def teardown_run_def

text \<open>When an event can happen, and the state it leads to.\<close>

lemma poll_step_Some_iff [simp]:
  "poll_step Mount s = Some s' \<longleftrightarrow>
     phase s = Unmounted \<and> s' = (issue s)\<lparr>phase := Mounted, interval := True\<rparr>"
  "poll_step Tick s = Some s' \<longleftrightarrow> interval s \<and> s' = issue s"
  "poll_step (Settle i r) s = Some s' \<longleftrightarrow> i \<in> set (pending s) \<and> s' = settle i r s"
  "poll_step Unmount s = Some s' \<longleftrightarrow>
     phase s = Mounted \<and> s' = s\<lparr>phase := Disposed, interval := False\<rparr>"
  by auto

text \<open>
  The proofs use the equivalences above; the defining equations are unfolded by
  name where a closed run is evaluated.
\<close>

declare poll_step.simps [simp del]

lemma issue_simps [simp]:
  "phase (issue s) = phase s"
  "interval (issue s) = interval s"
  "pending (issue s) = pending s @ [issued s]"
  "issued (issue s) = Suc (issued s)"
  "shown (issue s) = shown s"
  by (simp_all add: issue_def)

lemma settle_simps [simp]:
  "phase (settle i r s) = phase s"
  "interval (settle i r s) = interval s"
  "pending (settle i r s) = removeAll i (pending s)"
  "issued (settle i r s) = issued s"
  by (simp_all add: settle_def)

lemma settle_mounted:
  "phase s = Mounted \<Longrightarrow> shown (settle i r s) = fetchUserData r (shown s)"
  by (simp add: settle_def)

lemma settle_not_mounted:
  "phase s \<noteq> Mounted \<Longrightarrow> profileData (shown (settle i r s)) = profileData (shown s)"
  "phase s \<noteq> Mounted \<Longrightarrow> console (shown (settle i r s)) = console (fetchUserData r (shown s))"
  by (simp_all add: settle_def)

lemma run_append: "run (es @ fs) s = (case run es s of None \<Rightarrow> None | Some s' \<Rightarrow> run fs s')"
  by (induction es arbitrary: s) (simp_all split: option.split)

lemma run_Cons_Some:
  "run (e # es) s = Some s'' \<longleftrightarrow> (\<exists>s'. poll_step e s = Some s' \<and> run es s' = Some s'')"
  by (simp split: option.split)

lemma run_reachable: "reachable loader s \<Longrightarrow> run es s = Some s' \<Longrightarrow> reachable loader s'"
proof (induction es arbitrary: s)
  case Nil
  then show ?case by simp
next
  case (Cons e es)
  from Cons.prems(2) obtain s1 where "poll_step e s = Some s1" and "run es s1 = Some s'"
    unfolding run_Cons_Some by blast
  with Cons.prems(1) show ?case
    by (blast intro: reachable.step Cons.IH)
qed

section \<open>The invariant\<close>

lemma poll_inv_initial: "poll_inv loader (initial_poll loader)"
  by (simp add: poll_inv_def initial_poll_def)

lemma poll_inv_step:
  assumes inv: "poll_inv loader s" and step: "poll_step e s = Some s'"
  shows "poll_inv loader s'"
proof (cases e)
  case Mount
  with inv step show ?thesis
    by (simp add: poll_inv_def initial_poll_def)
next
  case Tick
  with step have live: "interval s" and s': "s' = issue s"
    by (simp_all)
  have "issued s \<notin> set (pending s)"
    by (rule fresh_above) (use inv in \<open>simp add: poll_inv_def\<close>)
  with inv live show ?thesis
    unfolding s' by (auto simp: poll_inv_def less_Suc_eq)
next
  case (Settle i r)
  with inv step show ?thesis
    by (auto simp: poll_inv_def initial_poll_def distinct_removeAll)
next
  case Unmount
  with inv step show ?thesis
    by (simp add: poll_inv_def)
qed

lemma reachable_inv: "reachable loader s \<Longrightarrow> poll_inv loader s"
  by (induction rule: reachable.induct) (auto intro: poll_inv_initial poll_inv_step)

lemma run_inv: "poll_inv loader s \<Longrightarrow> run es s = Some s' \<Longrightarrow> poll_inv loader s'"
proof (induction es arbitrary: s)
  case Nil
  then show ?case by simp
next
  case (Cons e es)
  from Cons.prems(2) obtain s1 where "poll_step e s = Some s1" and "run es s1 = Some s'"
    unfolding run_Cons_Some by blast
  with Cons.prems(1) show ?case
    by (blast intro: poll_inv_step Cons.IH)
qed

text \<open>
  C4. In every reachable state of the scheduler the interval is live exactly
  while the component is mounted, and the pending calls are pairwise distinct
  calls that were issued.
\<close>

theorem scheduler_invariant:
  assumes "reachable loader s"
  shows "(interval s \<longleftrightarrow> phase s = Mounted) \<and> distinct (pending s) \<and>
         (\<forall>i \<in> set (pending s). i < issued s)"
  using reachable_inv [OF assms] by (simp add: poll_inv_def)

theorem scheduler_invariant_witness:
  "\<exists>s. run [Mount, Tick] (initial_poll ''loader.gif'') = Some s \<and>
       interval s \<and> phase s = Mounted \<and> distinct (pending s) \<and> pending s = [0, 1]"
proof -
  obtain s where s: "run [Mount, Tick] (initial_poll ''loader.gif'') = Some s"
    by (simp add: run_eval)
  from reachable.start s have "reachable ''loader.gif'' s"
    by (rule run_reachable)
  from scheduler_invariant [OF this] s show ?thesis
    by (auto simp: run_eval)
qed

section \<open>After the cleanup\<close>

lemma step_after_dispose:
  assumes "phase s = Disposed" and "\<not> interval s" and "poll_step e s = Some s'"
  shows "phase s' = Disposed \<and> \<not> interval s' \<and> issued s' = issued s \<and>
         profileData (shown s') = profileData (shown s) \<and>
         set (pending s') \<subseteq> set (pending s)"
  using assms by (cases e) (auto simp: settle_not_mounted)

lemma run_after_dispose:
  assumes "phase s = Disposed" and "\<not> interval s" and "run es s = Some s'"
  shows "phase s' = Disposed \<and> \<not> interval s' \<and> issued s' = issued s \<and>
         profileData (shown s') = profileData (shown s) \<and>
         set (pending s') \<subseteq> set (pending s)"
  using assms
proof (induction es arbitrary: s)
  case Nil
  then show ?case by simp
next
  case (Cons e es)
  from Cons.prems(3) obtain s1 where 1: "poll_step e s = Some s1" and 2: "run es s1 = Some s'"
    unfolding run_Cons_Some by blast
  from step_after_dispose [OF Cons.prems(1,2) 1] Cons.IH [OF _ _ 2] show ?case
    by auto
qed

text \<open>
  C6. The cleanup is final. From a reachable state after the unmount, whatever
  events follow, the interval stays cleared, no call of \<open>fetchUserData\<close> is
  issued, the view state does not change, and the pending calls only become
  fewer.
\<close>

theorem teardown_is_final:
  assumes "reachable loader s" and "phase s = Disposed" and "run es s = Some s'"
  shows "phase s' = Disposed \<and> \<not> interval s' \<and> issued s' = issued s \<and>
         profileData (shown s') = profileData (shown s) \<and>
         set (pending s') \<subseteq> set (pending s)"
proof -
  from reachable_inv [OF assms(1)] assms(2) have "\<not> interval s"
    by (simp add: poll_inv_def)
  with assms(2) show ?thesis
    using assms(3) by (rule run_after_dispose)
qed

theorem teardown_is_final_witness:
  "\<exists>s s'. run teardown_run (initial_poll ''loader.gif'') = Some s \<and> phase s = Disposed \<and>
     run [Settle 1 (Envelope (Some fresh_payload)), Settle 0 FetchFailed] s = Some s' \<and>
     issued s' = 2 \<and> profileData (shown s') = initialProfileData ''loader.gif''"
proof -
  obtain s where s: "run teardown_run (initial_poll ''loader.gif'') = Some s"
    by (simp add: run_eval)
  then have disposed: "phase s = Disposed" and s_facts: "issued s = 2"
    "profileData (shown s) = initialProfileData ''loader.gif''"
    by (auto simp: run_eval)
  obtain s' where s': "run [Settle 1 (Envelope (Some fresh_payload)), Settle 0 FetchFailed] s = Some s'"
    using s by (auto simp: run_eval)
  from reachable.start s have "reachable ''loader.gif'' s"
    by (rule run_reachable)
  from teardown_is_final [OF this disposed s'] s s' disposed s_facts show ?thesis
    by auto
qed

section \<open>What is displayed\<close>

lemma view_after_failure [simp]:
  assumes "parse_reply r = Inl err"
  shows "view_after (Settle i r # es) v = view_after es v"
proof (cases r)
  case (Envelope d)
  with assms show ?thesis by (cases d) simp_all
qed simp_all

lemma view_after_payload:
  "view_after es (case d of None \<Rightarrow> v | Some data \<Rightarrow> view_of data)
     = (case payload_after es d of None \<Rightarrow> v | Some data \<Rightarrow> view_of data)"
  by (induction es d rule: payload_after.induct) simp_all

lemma view_after_last_payload:
  "view_after es v = (case last_payload es of None \<Rightarrow> v | Some data \<Rightarrow> view_of data)"
  using view_after_payload [where d = None] by (simp add: last_payload_def)

lemma step_view:
  assumes "poll_inv loader s" and "phase s \<noteq> Disposed" and "poll_step e s = Some s'"
  shows "if e = Unmount then phase s' = Disposed \<and> \<not> interval s' \<and>
           profileData (shown s') = profileData (shown s)
         else phase s' \<noteq> Disposed \<and>
           view_after (e # es) (profileData (shown s)) = view_after es (profileData (shown s'))"
proof (cases e)
  case (Settle i r)
  with assms have mounted: "phase s = Mounted" and s': "s' = settle i r s"
    by (cases "phase s"; auto simp: poll_inv_def initial_poll_def)+
  show ?thesis
  proof (cases "parse_reply r")
    case (Inl err)
    with Settle mounted s' show ?thesis
      by (simp add: settle_mounted fetchUserData_def try_block_failure)
  next
    case (Inr data)
    then have "r = Envelope (Some data)" by (simp add: parse_reply_Inr_iff)
    with Settle mounted s' show ?thesis
      by (simp add: settle_mounted fetchUserData_def)
  qed
qed (use assms in auto)

lemma run_view:
  assumes "poll_inv loader s" and "phase s \<noteq> Disposed" and "run es s = Some s'"
  shows "profileData (shown s') = view_after es (profileData (shown s))"
  using assms
proof (induction es arbitrary: s)
  case Nil
  then show ?case by simp
next
  case (Cons e es)
  from Cons.prems(3) obtain s1 where 1: "poll_step e s = Some s1" and 2: "run es s1 = Some s'"
    unfolding run_Cons_Some by blast
  note step = step_view [OF Cons.prems(1,2) 1, of es]
  show ?case
  proof (cases "e = Unmount")
    case True
    with step run_after_dispose [OF _ _ 2] show ?thesis by simp
  next
    case False
    with step Cons.IH [OF poll_inv_step [OF Cons.prems(1) 1] _ 2] show ?thesis by simp
  qed
qed

text \<open>
  C3. Last write wins. After any sequence of events from the first render, the
  widget displays the view of the payload whose reply arrived last before the
  cleanup, in the order of arrival and not of the calls, and the initial state
  when no payload has arrived.
\<close>

theorem displayed_view:
  assumes "run es (initial_poll loader) = Some s"
  shows "profileData (shown s) = view_after es (initialProfileData loader)"
  using run_view [OF poll_inv_initial _ assms]
  by (simp add: initial_poll_def initial_widget_def)

theorem displayed_view_witness:
  "\<exists>s. run race_run (initial_poll ''loader.gif'') = Some s \<and>
       pending s = [] \<and> profileData (shown s) = view_of stale_payload"
proof -
  obtain s where s: "run race_run (initial_poll ''loader.gif'') = Some s"
    by (simp add: run_eval)
  from displayed_view [OF s] have "profileData (shown s) = view_of stale_payload"
    by (simp add: race_run_def)
  moreover from s have "pending s = []"
    by (auto simp: run_eval)
  ultimately show ?thesis using s by blast
qed

section \<open>Calls and replies\<close>

lemma run_issued: "run es s = Some s' \<Longrightarrow> issued s' = issued s + calls es"
proof (induction es arbitrary: s)
  case Nil
  then show ?case by simp
next
  case (Cons e es)
  from Cons.prems obtain s1 where 1: "poll_step e s = Some s1" and 2: "run es s1 = Some s'"
    unfolding run_Cons_Some by blast
  from 1 have "issued s1 + calls es = issued s + calls (e # es)"
    by (cases e) auto
  with Cons.IH [OF 2] show ?case by simp
qed

text \<open>
  C22. Every start of the effect and every firing of the interval makes exactly
  one call of \<open>fetchUserData\<close>, and nothing else does: the number of calls issued
  is the number of these events, and it bounds the number of pending calls.
\<close>

theorem calls_accounting:
  assumes "run es (initial_poll loader) = Some s"
  shows "issued s = calls es \<and> length (pending s) \<le> calls es"
proof -
  from run_issued [OF assms] have issued: "issued s = calls es"
    by (simp add: initial_poll_def)
  from run_inv [OF poll_inv_initial assms] have "length (pending s) \<le> issued s"
    by (auto simp: poll_inv_def intro: distinct_below_length)
  with issued show ?thesis by simp
qed

theorem calls_accounting_witness:
  "\<exists>s. run race_run (initial_poll ''loader.gif'') = Some s \<and> issued s = 2 \<and> calls race_run = 2"
proof -
  obtain s where s: "run race_run (initial_poll ''loader.gif'') = Some s"
    by (simp add: run_eval)
  from calls_accounting [OF s] s show ?thesis
    by (simp add: race_run_def)
qed

end
