(* ===== verification/Lanyard_Render.thy ===== *)
theory Lanyard_Render
  imports Lanyard_Fetch
begin

text \<open>
  The view renderer (lines 156 to 246 of \<^verbatim>\<open>src/src/LanyardProfile.tsx\<close>):
  \<open>getStatusStyles\<close> and the element tree that the component returns for a view
  state.

  An element of the tree is its tag, its attributes in the order of the source
  and its children. An attribute value is a string that may be \<open>undefined\<close>, or
  the style object. A child written \<open>{e}\<close> is a text with the value of \<open>e\<close>, which
  may be \<open>undefined\<close>; literal text is a text with a string. The entity \<open>&gt;\<close> is
  the character \<open>>\<close>. The tree is what the component function returns; what the
  browser draws for it, and the style sheet that gives the class \<open>hidden\<close> its
  effect, are outside the model.

  The functions \<open>find_id\<close>, \<open>children\<close>, \<open>class_names\<close> and \<open>hidden_class\<close> are not
  code of the widget: they read the tree the way \<open>getElementById\<close>, \<open>children\<close>
  and \<open>classList\<close> do, to state what the tree shows.
\<close>

section \<open>The status dot\<close>

text \<open>
  The object that \<open>getStatusStyles\<close> returns; in the \<open>default\<close> branch it is the
  empty object, all of whose members read as \<open>undefined\<close>.
\<close>

record status_style =
  sty_background :: "jsstring option"
  sty_title :: "jsstring option"
  sty_color :: "jsstring option"
  sty_opacity :: "jsnumber option"

definition getStatusStyles :: "ProfileData \<Rightarrow> status_style" where
  "getStatusStyles pd =
     (let discordStatus = pd_discordStatus pd in
      if discordStatus = ''online'' then
        \<lparr> sty_background = Some ''#3ba45d'', sty_title = Some ''Online'',
          sty_color = Some ''#3ba45d'', sty_opacity = Some 1 \<rparr>
      else if discordStatus = ''dnd'' then
        \<lparr> sty_background = Some ''#ed4245'', sty_title = Some ''Do not disturb'',
          sty_color = Some ''#ed4245'', sty_opacity = Some 1 \<rparr>
      else if discordStatus = ''idle'' then
        \<lparr> sty_background = Some ''#faa81a'', sty_title = Some ''Idle'',
          sty_color = Some ''#faa81a'', sty_opacity = Some 1 \<rparr>
      else if discordStatus = ''offline'' then
        \<lparr> sty_background = Some ''#747e8c'', sty_title = Some ''Offline'',
          sty_color = Some ''unset'', sty_opacity = Some 0.5 \<rparr>
      else
        \<lparr> sty_background = None, sty_title = None, sty_color = None, sty_opacity = None \<rparr>)"

section \<open>The element tree\<close>

datatype attr = Str "jsstring option" | Style status_style

datatype markup =
  Element jsstring "(jsstring \<times> attr) list" "markup list"
  | Text "jsstring option"

text \<open>\<open>`${!v ? "hidden" : ""}`\<close>: the class of an element that shows the value \<open>v\<close>.\<close>

definition hidden_unless :: "jsstring option \<Rightarrow> jsstring" where
  "hidden_unless v = (if \<not> truthy v then ''hidden'' else [])"

text \<open>The card of lines 196 to 216: avatar, status dot, user name and status.\<close>

definition profile_card :: "ProfileData \<Rightarrow> markup" where
  "profile_card pd =
     Element ''div'' [(''className'', Str (Some ''card''))]
       [Element ''div'' [(''className'', Str (Some ''card-title''))]
          [Text (Some ''@loneweeb > home'')],
        Element ''div'' [(''className'', Str (Some ''user-profile''))]
          [Element ''div'' [(''className'', Str (Some ''profile-pic''))]
             [Element ''img'' [(''id'', Str (Some ''pfp'')), (''src'', Str (Some (pd_avatar pd))),
                              (''alt'', Str (Some []))] [],
              Element ''div'' [(''id'', Str (Some ''status-dot'')),
                              (''aria-label'', Str (Some (pd_discordStatus pd))),
                              (''style'', Style (getStatusStyles pd))] []],
           Element ''div'' [(''className'', Str (Some ''user-info''))]
             [Element ''div'' [(''id'', Str (Some ''username''))] [Text (Some (pd_username pd))],
              Element ''div'' [(''id'', Str (Some ''status''))] [Text (Some (pd_status pd))],
              Element ''div'' [(''id'', Str (Some ''status2''))]
                [Text (Some (if pd_discordStatus pd \<noteq> ''offline''
                             then pd_discordStatus pd else ''unknown''))],
              Element ''div'' [(''className'', Str (Some ''connections''))] []]]]"

text \<open>The card of lines 217 to 230: the images and texts of the activity.\<close>

definition activity_card :: "ProfileData \<Rightarrow> markup" where
  "activity_card pd =
     (let activity = pd_activity pd in
      Element ''div''
        [(''className'',
          Str (Some (''activity card '' @ (if pa_hidden activity then ''hidden'' else []))))]
        [Element ''div'' [(''className'', Str (Some ''card-title''))]
           [Text (Some ''@loneweeb > activity'')],
         Element ''div'' [(''className'', Str (Some ''activity-wrapper''))]
           [Element ''div'' [(''className'', Str (Some ''activity-images''))]
              [Element ''img'' [(''id'', Str (Some ''activity-big-image'')),
                               (''className'', Str (Some (hidden_unless (pa_bigImage activity)))),
                               (''src'', Str (pa_bigImage activity)), (''alt'', Str (Some []))] [],
               Element ''img'' [(''id'', Str (Some ''activity-small-image'')),
                               (''className'', Str (Some (hidden_unless (pa_smallImage activity)))),
                               (''src'', Str (pa_smallImage activity)), (''alt'', Str (Some []))] []],
            Element ''div'' [(''className'', Str (Some ''activity-info''))]
              [Element ''div'' [(''id'', Str (Some ''activity-name'')),
                               (''className'', Str (Some (hidden_unless (pa_name activity))))]
                 [Text (pa_name activity)],
               Element ''div'' [(''id'', Str (Some ''activity-state'')),
                               (''className'', Str (Some (hidden_unless (pa_state activity))))]
                 [Text (pa_state activity)],
               Element ''div'' [(''id'', Str (Some ''activity-detail'')),
                               (''className'', Str (Some (hidden_unless (pa_details activity))))]
                 [Text (pa_details activity)]]]])"

text \<open>
  The card of lines 231 to 244: static text. Each item starts with the character
  U+03E1, which is no \<open>char\<close> of HOL; \<open>bullet\<close> stands for it by the two bytes it
  has in the source file.
\<close>

definition bullet :: jsstring where
  "bullet = [CHR 0xCF, CHR 0xA1]"

definition about_card :: markup where
  "about_card =
     Element ''div'' [(''className'', Str (Some ''card''))]
       [Element ''div'' [(''className'', Str (Some ''card-title''))]
          [Text (Some ''@loneweeb > about me'')],
        Element ''div'' [(''className'', Str (Some ''about-me''))]
          [Element ''header'' [(''className'', Str (Some ''heading''))] [Text (Some ''about me'')],
           Element ''div'' [(''className'', Str (Some ''bio''))]
             [Element ''ul'' []
                [Element ''li'' [] [Text (Some (bullet @ '' 17 years old''))],
                 Element ''li'' [] [Text (Some (bullet @ '' straight male''))],
                 Element ''li'' [] [Text (Some (bullet @ '' looking for my soulmate''))],
                 Element ''li'' [] [Text (Some (bullet @ '' indian''))]]]]]"

text \<open>The value of the component function for the view state \<open>pd\<close>.\<close>

definition render :: "ProfileData \<Rightarrow> markup" where
  "render pd =
     Element ''div'' [(''className'', Str (Some ''wrapper''))]
       [profile_card pd, activity_card pd, about_card]"

section \<open>Reading the tree\<close>

text \<open>The first element, in document order, whose \<open>id\<close> is \<open>i\<close>.\<close>

fun find_id :: "jsstring \<Rightarrow> markup \<Rightarrow> markup option"
  and find_id_in :: "jsstring \<Rightarrow> markup list \<Rightarrow> markup option" where
  "find_id i (Text v) = None"
| "find_id i (Element tag attrs kids) =
     (if map_of attrs ''id'' = Some (Str (Some i)) then Some (Element tag attrs kids)
      else find_id_in i kids)"
| "find_id_in i [] = None"
| "find_id_in i (m # ms) = (case find_id i m of Some e \<Rightarrow> Some e | None \<Rightarrow> find_id_in i ms)"

text \<open>The class names of an element, and whether \<open>hidden\<close> is one of them.\<close>

fun class_names :: "markup \<Rightarrow> jsstring list" where
  "class_names (Text v) = []"
| "class_names (Element tag attrs kids) =
     (case map_of attrs ''className'' of
        Some (Str (Some c)) \<Rightarrow> filter (\<lambda>n. n \<noteq> []) (split_all c '' '')
      | _ \<Rightarrow> [])"

definition hidden_class :: "markup \<Rightarrow> bool" where
  "hidden_class m \<longleftrightarrow> ''hidden'' \<in> set (class_names m)"

text \<open>An attribute of an element, its children and its text children.\<close>

fun children :: "markup \<Rightarrow> markup list" where
  "children (Text v) = []"
| "children (Element tag attrs kids) = kids"

fun attribute :: "jsstring \<Rightarrow> markup \<Rightarrow> attr option" where
  "attribute a (Text v) = None"
| "attribute a (Element tag attrs kids) = map_of attrs a"

fun texts :: "markup \<Rightarrow> jsstring option list" where
  "texts (Text v) = [v]"
| "texts (Element tag attrs kids) = concat (map texts kids)"

section \<open>Unfolding and evaluation rules\<close>

lemmas render_defs [lp_defs] =
  getStatusStyles_def hidden_unless_def profile_card_def activity_card_def bullet_def
  about_card_def render_def hidden_class_def

lemma hidden_unless_simps [simp]:
  "truthy v \<Longrightarrow> hidden_unless v = []"
  "\<not> truthy v \<Longrightarrow> hidden_unless v = ''hidden''"
  by (simp_all add: hidden_unless_def)

text \<open>Splitting the class strings of the tree at spaces.\<close>

lemma split_class_strings [simp]:
  "split_all [] '' '' = [[]]"
  "split_all ''hidden'' '' '' = [''hidden'']"
  "split_all ''activity card '' '' '' = [''activity'', ''card'', []]"
  "split_all ''activity card hidden'' '' '' = [''activity'', ''card'', ''hidden'']"
  by (simp_all add: split_all_unfold)

lemma split_hidden_unless [simp]:
  "split_all (hidden_unless v) '' '' = (if truthy v then [[]] else [''hidden''])"
  by (cases "truthy v") simp_all

lemma class_names_hidden_unless:
  "class_names (Element tag ((''id'', x) # (''className'', Str (Some (hidden_unless v))) # rest) kids)
     = (if truthy v then [] else [''hidden''])"
  by simp

lemma hidden_class_hidden_unless:
  "hidden_class (Element tag ((''id'', x) # (''className'', Str (Some (hidden_unless v))) # rest) kids)
     \<longleftrightarrow> \<not> truthy v"
  by (simp add: hidden_class_def)

section \<open>The status dot\<close>

text \<open>
  C25. The status dot is styled for the four statuses \<open>online\<close>, \<open>dnd\<close>, \<open>idle\<close>
  and \<open>offline\<close> and for no other: the style of any other status is the empty
  object. The dot is half transparent exactly when the status is \<open>offline\<close>, and
  its title is \<open>Offline\<close> exactly then.
\<close>

theorem status_style_known:
  "(sty_background (getStatusStyles pd) = None \<longleftrightarrow>
      pd_discordStatus pd \<notin> {''online'', ''dnd'', ''idle'', ''offline''}) \<and>
   (sty_opacity (getStatusStyles pd) = Some (1 / 2) \<longleftrightarrow> pd_discordStatus pd = ''offline'') \<and>
   (sty_title (getStatusStyles pd) = Some ''Offline'' \<longleftrightarrow> pd_discordStatus pd = ''offline'') \<and>
   (getStatusStyles pd = \<lparr> sty_background = None, sty_title = None, sty_color = None,
                           sty_opacity = None \<rparr>
      \<longleftrightarrow> pd_discordStatus pd \<notin> {''online'', ''dnd'', ''idle'', ''offline''})"
  by (simp add: getStatusStyles_def Let_def)

section \<open>What is hidden\<close>

lemma find_activity_elements:
  "find_id ''activity-big-image'' (render pd) =
     Some (Element ''img'' [(''id'', Str (Some ''activity-big-image'')),
        (''className'', Str (Some (hidden_unless (pa_bigImage (pd_activity pd))))),
        (''src'', Str (pa_bigImage (pd_activity pd))), (''alt'', Str (Some []))] [])"
  "find_id ''activity-small-image'' (render pd) =
     Some (Element ''img'' [(''id'', Str (Some ''activity-small-image'')),
        (''className'', Str (Some (hidden_unless (pa_smallImage (pd_activity pd))))),
        (''src'', Str (pa_smallImage (pd_activity pd))), (''alt'', Str (Some []))] [])"
  "find_id ''activity-name'' (render pd) =
     Some (Element ''div'' [(''id'', Str (Some ''activity-name'')),
        (''className'', Str (Some (hidden_unless (pa_name (pd_activity pd)))))]
        [Text (pa_name (pd_activity pd))])"
  "find_id ''activity-state'' (render pd) =
     Some (Element ''div'' [(''id'', Str (Some ''activity-state'')),
        (''className'', Str (Some (hidden_unless (pa_state (pd_activity pd)))))]
        [Text (pa_state (pd_activity pd))])"
  "find_id ''activity-detail'' (render pd) =
     Some (Element ''div'' [(''id'', Str (Some ''activity-detail'')),
        (''className'', Str (Some (hidden_unless (pa_details (pd_activity pd)))))]
        [Text (pa_details (pd_activity pd))])"
  by (simp_all add: render_def profile_card_def activity_card_def Let_def)

text \<open>
  C23. Each of the five elements of the activity card carries the class
  \<open>hidden\<close> exactly when the member of the view state that it shows is
  \<open>undefined\<close> or the empty string.
\<close>

theorem activity_fields_hidden:
  "map_option hidden_class (find_id ''activity-big-image'' (render pd))
     = Some (\<not> truthy (pa_bigImage (pd_activity pd))) \<and>
   map_option hidden_class (find_id ''activity-small-image'' (render pd))
     = Some (\<not> truthy (pa_smallImage (pd_activity pd))) \<and>
   map_option hidden_class (find_id ''activity-name'' (render pd))
     = Some (\<not> truthy (pa_name (pd_activity pd))) \<and>
   map_option hidden_class (find_id ''activity-state'' (render pd))
     = Some (\<not> truthy (pa_state (pd_activity pd))) \<and>
   map_option hidden_class (find_id ''activity-detail'' (render pd))
     = Some (\<not> truthy (pa_details (pd_activity pd)))"
  by (simp add: find_activity_elements hidden_class_hidden_unless)

lemma children_render [simp]:
  "children (render pd) = [profile_card pd, activity_card pd, about_card]"
  by (simp add: render_def)

lemma class_names_activity_card:
  "class_names (activity_card pd) =
     (if pa_hidden (pd_activity pd) then [''activity'', ''card'', ''hidden'']
      else [''activity'', ''card''])"
  by (simp add: activity_card_def Let_def)

text \<open>
  C24. The activity card as a whole carries the class \<open>hidden\<close> exactly when
  \<open>activity.hidden\<close> is true; it is the second child of the wrapper, between
  the profile card and the static card.
\<close>

theorem activity_card_hidden:
  "(hidden_class (activity_card pd) \<longleftrightarrow> pa_hidden (pd_activity pd)) \<and>
   render pd = Element ''div'' [(''className'', Str (Some ''wrapper''))]
                 [profile_card pd, activity_card pd, about_card]"
  by (simp add: hidden_class_def class_names_activity_card render_def)

section \<open>The profile card\<close>

lemma find_profile_elements:
  "find_id ''status2'' (render pd) =
     Some (Element ''div'' [(''id'', Str (Some ''status2''))]
       [Text (Some (if pd_discordStatus pd \<noteq> ''offline'' then pd_discordStatus pd
                    else ''unknown''))])"
  "find_id ''status'' (render pd) =
     Some (Element ''div'' [(''id'', Str (Some ''status''))] [Text (Some (pd_status pd))])"
  "find_id ''username'' (render pd) =
     Some (Element ''div'' [(''id'', Str (Some ''username''))] [Text (Some (pd_username pd))])"
  "find_id ''status-dot'' (render pd) =
     Some (Element ''div'' [(''id'', Str (Some ''status-dot'')),
       (''aria-label'', Str (Some (pd_discordStatus pd))),
       (''style'', Style (getStatusStyles pd))] [])"
  "find_id ''pfp'' (render pd) =
     Some (Element ''img'' [(''id'', Str (Some ''pfp'')), (''src'', Str (Some (pd_avatar pd))),
       (''alt'', Str (Some []))] [])"
  by (simp_all add: render_def profile_card_def Let_def)

end
