(* ===== verification/Spec2Isabelle.thy ===== *)
theory Spec2Isabelle
  imports Lanyard_Poll Lanyard_Render
begin

text \<open>
  \<^bold>\<open>A verification development for the Lanyard profile widget.\<close>

  The program is one React component, \<open>LanyardProfile\<close>, in
  \<^verbatim>\<open>src/src/LanyardProfile.tsx\<close> (248 lines). It shows the Discord presence of
  one fixed user. It has three parts, which the specification calls the presence
  fetcher, the poll scheduler and the view renderer:

  \<^item> \<open>fetchUserData\<close> (lines 95 to 144) requests the presence of the user from
    the Lanyard API, picks the first activity that is not a custom status,
    builds a view state from the payload and stores it; every exception ends in
    one \<open>catch\<close> that logs it.
  \<^item> the effect (lines 146 to 154) calls \<open>fetchUserData\<close> once, then once per
    second from an interval, and clears the interval at unmount.
  \<^item> \<open>getStatusStyles\<close> (lines 156 to 190) and the returned markup (lines 192 to
    246) turn the view state into an element tree of three cards.

  The parts interact through the component state alone: the fetcher writes
  \<open>profileData\<close>, the scheduler decides when and in which order the fetcher's
  writes happen, the renderer reads \<open>profileData\<close>.

  \<^bold>\<open>The theories.\<close>

  \<^descr>[\<open>Lanyard_Prelude\<close>] the fact collections \<open>js_defs\<close> and \<open>lp_defs\<close>, the types
    \<open>jsstring\<close> and \<open>jsnumber\<close>, the predicate \<open>occurs_at\<close> and generic lemmas on
    lists.
  \<^descr>[\<open>JS_Value\<close>, \<open>JS_String\<close>, \<open>JS_Split\<close>] the operations of JavaScript that the
    code applies, written after ECMA-262 and not after code of the repository:
    \<open>undefined\<close> and \<open>null\<close> (\<open>option\<close>, \<open>nullable\<close>, \<open>chain_null\<close>), truthiness
    and \<open>||\<close> (\<open>truthy\<close>, \<open>or_else\<close>), template literals (\<open>tmpl\<close>, \<open>tmpl_null\<close>),
    array reads (\<open>index_js\<close>), \<open>StringIndexOf\<close> and \<open>includes\<close> (\<open>first_occ\<close>,
    \<open>includes_js\<close>), and \<open>split\<close> (\<open>split_loop\<close>, \<open>split_all\<close>, \<open>split_js\<close>).
    Their lemmas say that the search finds the least occurrence and fails exactly
    when the pattern is no sublist, that joining the pieces of a split with the
    separator gives the string back, that no piece contains the separator, and
    what the second piece is.
  \<^descr>[\<open>Lanyard_Data\<close>] lines 5 to 93: the constants \<open>API_URL\<close> and \<open>USERID\<close>, one
    record per interface (\<open>DiscordUser\<close>, \<open>Activity\<close>, \<open>SpotifyData\<close>,
    \<open>LanyardData\<close>, \<open>ProfileData\<close>), the initial view state
    \<open>initialProfileData\<close>, and the predicate \<open>populated\<close>.
  \<^descr>[\<open>Lanyard_Examples\<close>] closed payloads on which the instances of the
    theorems are evaluated.
  \<^descr>[\<open>Lanyard_Normalize\<close>] lines 100 to 136: \<open>currentActivity\<close> (the \<open>find\<close> of
    line 101), \<open>currentData_init\<close> (the object literal), \<open>assign_bigImage\<close> and
    \<open>assign_smallImage\<close> (the two guarded assignments) and their composition
    \<open>currentData\<close>, whose result is \<open>js_error + ProfileData\<close> because line 124
    calls \<open>includes\<close> on a value that the types allow to be \<open>undefined\<close>. The
    specification of this part is \<open>view_of\<close>, a closed form by cases on the
    payload. The lemmas show that \<open>currentData\<close> never throws and equals \<open>view_of\<close>
    on every payload, and what \<open>view_of\<close> gives for each kind of payload: offline,
    no activity, Spotify, proxied image, application asset.
  \<^descr>[\<open>Lanyard_Fetch\<close>] lines 95 to 144: the replies a call can receive
    (\<open>reply\<close>), the awaits and the destructuring (\<open>parse_reply\<close>), the \<open>try\<close>
    block (\<open>try_block\<close>), the updater of \<open>setProfileData\<close> (\<open>merge_profile\<close>) and
    \<open>fetchUserData\<close> on the component state \<open>widget\<close>, which holds the view state
    and the console. The lemmas show the two outcomes of a call and that a call
    keeps the view state populated.
  \<^descr>[\<open>Lanyard_Poll\<close>] lines 146 to 154: the step function \<open>poll_step\<close> with
    \<open>issue\<close> and \<open>settle\<close>, the two halves of a call of \<open>fetchUserData\<close>. Its
    state \<open>poll_state\<close> and its events (\<open>Mount\<close>, \<open>Tick\<close>, \<open>Settle\<close>, \<open>Unmount\<close>)
    are those of React, the timer and the network, which the code only calls;
    \<open>run\<close> and \<open>reachable\<close> close the step function over sequences of events. The
    specification is \<open>view_after\<close>, the view of \<open>last_payload\<close>, the payload that
    arrived last.
    The lemmas show the invariant \<open>poll_inv\<close> of all reachable states, that the
    cleanup is final, that the displayed view is \<open>view_after\<close> of the events, and
    that every mount and every tick makes exactly one call.
  \<^descr>[\<open>Lanyard_Render\<close>] lines 156 to 246: \<open>getStatusStyles\<close>, the three cards
    (\<open>profile_card\<close>, \<open>activity_card\<close>, \<open>about_card\<close>) and \<open>render\<close>, with
    functions that read the tree by identifier and class. The lemmas show which
    statuses are styled and which elements carry the class \<open>hidden\<close>.
  \<^descr>[\<open>Spec2Isabelle\<close>] this theory: the component as a whole. \<open>screen\<close> is the
    tree for a component state. Its theorems span the parts: what a reader of
    the tree finds on the screen after any run of the scheduler and after a
    reply, by the payload that arrived last.

  \<^bold>\<open>How the model corresponds to the code.\<close>

  A member \<open>f?: T\<close> is a field of type \<open>T option\<close>, a member of type \<open>T | null\<close> a
  field of type \<open>T nullable\<close>; optional chaining is \<open>map_option\<close>, \<open>Option.bind\<close>
  or \<open>chain_null\<close>. A string is a \<open>char list\<close>, a number a real. An exception is
  the left summand of a result. The \<open>async\<close> function \<open>fetchUserData\<close> is split at
  its awaits: the scheduler's \<open>issue\<close> is the part up to the request, and
  \<open>fetchUserData r\<close> is the rest, run when the reply \<open>r\<close> arrives. The payload is
  typed as the interfaces of the source type it: a reply whose \<open>data\<close> member is
  absent is \<open>Envelope None\<close>, a \<open>data\<close> member of another shape than \<open>LanyardData\<close>
  is outside the model.

  Three things of the model have no counterpart in the source. The calls in
  flight carry numbers (\<open>issued\<close>, \<open>pending\<close>), which stand for the promises that
  the calls return. The branch of \<open>settle\<close> for an unmounted component is React's
  treatment of the update, not a test in the code, which calls \<open>setProfileData\<close>
  in either case. A character above 255 is written by the bytes it has in the
  source file, which concerns the static text of the third card only.

  \<^bold>\<open>Bounds.\<close>

  No function of the development takes fuel. \<open>split_loop\<close> is a total function
  with a termination proof, by the distance to the end of the string.
  \<open>split_js\<close> keeps at most \<open>split_limit\<close> pieces, which is \<open>2^32 - 1\<close> as in
  ECMA-262; the code reads the piece at index 1 only. Identifiers of calls are
  natural numbers and never wrap. The scheduler's lemmas hold for runs of any
  length and any interleaving of ticks and replies.

  \<^bold>\<open>What is not modelled.\<close>

  The network and the JSON parser (a reply is an input of the model), time (the
  period of 1000 ms; the model allows every order of events that some timing
  produces), React's reconciliation and the browser's drawing of the tree, the
  style sheet, the text that \<open>console.error\<close> prints beside the exception, and
  the module \<open>assets\<close> from which the loader image comes (a parameter). Payloads
  that violate the declared interfaces, for instance a missing \<open>discord_user\<close>,
  are left to an untyped layer beneath \<open>parse_reply\<close>.
\<close>

section \<open>The component\<close>

text \<open>
  What \<open>LanyardProfile\<close> returns when React calls it with the component state
  \<open>w\<close>: lines 192 to 246 applied to the \<open>profileData\<close> of the state.
\<close>

definition screen :: "widget \<Rightarrow> markup" where
  "screen w = render (profileData w)"

text \<open>
  Reading the screen: whether the element with identifier \<open>i\<close> is hidden, its
  texts, an attribute of it, and whether the card at position \<open>n\<close> of the wrapper
  is hidden. \<open>None\<close> when there is no such element.
\<close>

definition hidden_at :: "jsstring \<Rightarrow> markup \<Rightarrow> bool option" where
  "hidden_at i m = map_option hidden_class (find_id i m)"

definition texts_at :: "jsstring \<Rightarrow> markup \<Rightarrow> jsstring option list option" where
  "texts_at i m = map_option texts (find_id i m)"

definition attribute_at :: "jsstring \<Rightarrow> jsstring \<Rightarrow> markup \<Rightarrow> attr option" where
  "attribute_at i a m = Option.bind (find_id i m) (attribute a)"

definition card_hidden :: "nat \<Rightarrow> markup \<Rightarrow> bool option" where
  "card_hidden n m = map_option hidden_class (index_js (children m) n)"

section \<open>Reading the screen\<close>

lemmas screen_defs [lp_defs] = screen_def hidden_at_def texts_at_def attribute_at_def
  card_hidden_def

lemma profileData_success [simp]:
  "profileData (fetchUserData (Envelope (Some data)) w) = view_of data"
  by (simp add: fetchUserData_def)

lemma screen_success [simp]: "screen (fetchUserData (Envelope (Some data)) w) = render (view_of data)"
  by (simp add: screen_def)

lemma hidden_at_activity [simp]:
  "hidden_at ''activity-big-image'' (render pd) = Some (\<not> truthy (pa_bigImage (pd_activity pd)))"
  "hidden_at ''activity-small-image'' (render pd) = Some (\<not> truthy (pa_smallImage (pd_activity pd)))"
  "hidden_at ''activity-name'' (render pd) = Some (\<not> truthy (pa_name (pd_activity pd)))"
  "hidden_at ''activity-state'' (render pd) = Some (\<not> truthy (pa_state (pd_activity pd)))"
  "hidden_at ''activity-detail'' (render pd) = Some (\<not> truthy (pa_details (pd_activity pd)))"
  by (simp_all add: hidden_at_def find_activity_elements hidden_class_hidden_unless)

lemma texts_at_render [simp]:
  "texts_at ''username'' (render pd) = Some [Some (pd_username pd)]"
  "texts_at ''status'' (render pd) = Some [Some (pd_status pd)]"
  "texts_at ''status2'' (render pd) =
     Some [Some (if pd_discordStatus pd \<noteq> ''offline'' then pd_discordStatus pd else ''unknown'')]"
  "texts_at ''activity-name'' (render pd) = Some [pa_name (pd_activity pd)]"
  "texts_at ''activity-state'' (render pd) = Some [pa_state (pd_activity pd)]"
  "texts_at ''activity-detail'' (render pd) = Some [pa_details (pd_activity pd)]"
  by (simp_all add: texts_at_def find_activity_elements find_profile_elements)

lemma attribute_at_render [simp]:
  "attribute_at ''pfp'' ''src'' (render pd) = Some (Str (Some (pd_avatar pd)))"
  "attribute_at ''status-dot'' ''style'' (render pd) = Some (Style (getStatusStyles pd))"
  "attribute_at ''status-dot'' ''aria-label'' (render pd) = Some (Str (Some (pd_discordStatus pd)))"
  "attribute_at ''activity-big-image'' ''src'' (render pd) = Some (Str (pa_bigImage (pd_activity pd)))"
  "attribute_at ''activity-small-image'' ''src'' (render pd)
     = Some (Str (pa_smallImage (pd_activity pd)))"
  by (simp_all add: attribute_at_def find_activity_elements find_profile_elements)

text \<open>The activity card is the card at position 1 of the wrapper.\<close>

lemma card_hidden_render [simp]:
  "card_hidden (Suc 0) (render pd) = Some (pa_hidden (pd_activity pd))"
  by (simp add: card_hidden_def hidden_class_def class_names_activity_card)

lemma init_status [simp]:
  "pd_discordStatus (currentData_init data) = ld_discord_status data"
  "pa_hidden (pd_activity (currentData_init data)) \<longleftrightarrow> ld_discord_status data = ''offline''"
  "pd_status (currentData_init data) = [] \<longleftrightarrow> ld_discord_status data = ''offline''"
  "pd_avatar (currentData_init data) =
     ''https://cdn.discordapp.com/avatars/'' @ USERID @ ''/''
       @ tmpl_null (du_avatar (ld_discord_user data))"
  "pa_name (pd_activity (currentData_init data))
     = Some (or_else (map_option ac_name (currentActivity (ld_activities data))) ''doing yo moma'')"
  by (simp_all add: currentData_init_def Let_def)

section \<open>The screen after a run\<close>

text \<open>
  C9. What a reader of the tree finds after any run from the first render,
  whatever the interleaving of ticks, replies and the cleanup, by the payload
  that arrived last before the cleanup. Until a payload has arrived the avatar
  is the loader image and the activity card and the activity name are hidden.
  From then on the avatar is the address built from the payload, the activity
  card is hidden exactly when the status of that payload is \<open>offline\<close>, and the
  activity name is never hidden again.
\<close>

theorem screen_shows_last_payload:
  assumes "run es (initial_poll loader) = Some s"
  shows "attribute_at ''pfp'' ''src'' (screen (shown s))
           = Some (Str (Some (case last_payload es of
                 None \<Rightarrow> loader
               | Some data \<Rightarrow> ''https://cdn.discordapp.com/avatars/'' @ USERID @ ''/''
                   @ tmpl_null (du_avatar (ld_discord_user data))))) \<and>
         card_hidden 1 (screen (shown s))
           = Some (case last_payload es of
                 None \<Rightarrow> True
               | Some data \<Rightarrow> ld_discord_status data = ''offline'') \<and>
         hidden_at ''activity-name'' (screen (shown s)) = Some (last_payload es = None)"
proof -
  from run_view [OF poll_inv_initial _ assms]
  have "profileData (shown s) = view_after es (initialProfileData loader)"
    by (simp add: initial_poll_def initial_widget_def)
  then have view: "profileData (shown s) =
      (case last_payload es of None \<Rightarrow> initialProfileData loader | Some data \<Rightarrow> view_of data)"
    by (simp add: view_after_last_payload)
  show ?thesis
  proof (cases "last_payload es")
    case None
    with view show ?thesis by (simp add: screen_def initialProfileData_def)
  next
    case (Some data)
    with view show ?thesis by (simp add: screen_def or_else_nonempty)
  qed
qed

theorem screen_shows_last_payload_witness:
  "\<exists>s. run race_run (initial_poll ''loader.gif'') = Some s \<and>
       last_payload race_run = Some stale_payload \<and>
       card_hidden 1 (screen (shown s)) = Some False \<and>
       hidden_at ''activity-name'' (screen (shown s)) = Some False"
proof -
  obtain s where s: "run race_run (initial_poll ''loader.gif'') = Some s"
    by (simp add: run_eval)
  have last: "last_payload race_run = Some stale_payload"
    by (simp add: last_payload_def race_run_def)
  from screen_shows_last_payload [OF s] last s show ?thesis
    by (simp add: stale_payload_def payload_def)
qed

section \<open>The screen after a reply\<close>

text \<open>
  C26. After a reply with a payload the screen tells an offline user in three
  places that agree: the activity card is hidden, the status dot has the style
  of the payload's status and so is half transparent, and the first status line
  is empty, each exactly when the status of the payload is \<open>offline\<close>. The
  second status line does not agree with them: it reads \<open>unknown\<close> for the
  status \<open>offline\<close> and prints every other status as it is, so it reads
  \<open>unknown\<close> for a payload whose status is \<open>unknown\<close> as well.
\<close>

theorem offline_screen:
  "(card_hidden 1 (screen (fetchUserData (Envelope (Some data)) w)) = Some True
      \<longleftrightarrow> ld_discord_status data = ''offline'') \<and>
   attribute_at ''status-dot'' ''style'' (screen (fetchUserData (Envelope (Some data)) w))
     = Some (Style (getStatusStyles (view_of data))) \<and>
   (sty_opacity (getStatusStyles (view_of data)) = Some (1 / 2)
      \<longleftrightarrow> ld_discord_status data = ''offline'') \<and>
   (texts_at ''status'' (screen (fetchUserData (Envelope (Some data)) w)) = Some [Some []]
      \<longleftrightarrow> ld_discord_status data = ''offline'') \<and>
   (texts_at ''status2'' (screen (fetchUserData (Envelope (Some data)) w)) = Some [Some ''unknown'']
      \<longleftrightarrow> ld_discord_status data = ''offline'' \<or> ld_discord_status data = ''unknown'')"
  by (auto simp: getStatusStyles_def Let_def)

text \<open>
  C28. After a reply with a payload the name of the activity is never hidden:
  it is the name of the current activity, or the placeholder of line 118 when
  there is no current activity or its name is empty.
\<close>

theorem activity_name_visible:
  "hidden_at ''activity-name'' (screen (fetchUserData (Envelope (Some data)) w)) = Some False \<and>
   texts_at ''activity-name'' (screen (fetchUserData (Envelope (Some data)) w))
     = Some [Some (or_else (map_option ac_name (currentActivity (ld_activities data)))
                     ''doing yo moma'')]"
  by (simp add: or_else_nonempty)

text \<open>
  C27. With no current activity the small image is on the screen all the same:
  its element is not hidden and its address is the asset address with
  \<open>undefined\<close> for both the application and the image, which names no image.
\<close>

theorem broken_small_image_shown:
  assumes "currentActivity (ld_activities data) = None"
  shows "hidden_at ''activity-small-image'' (screen (fetchUserData (Envelope (Some data)) w))
           = Some False \<and>
         attribute_at ''activity-small-image'' ''src''
             (screen (fetchUserData (Envelope (Some data)) w))
           = Some (Str (Some ''https://cdn.discordapp.com/app-assets/undefined/undefined.png''))"
  using assms by (simp add: small_image_of_def)

theorem broken_small_image_shown_witness:
  "currentActivity (ld_activities (payload ''idle'' [custom_status] Null)) = None \<and>
   hidden_at ''activity-small-image''
       (screen (fetchUserData (Envelope (Some (payload ''idle'' [custom_status] Null)))
          (initial_widget ''loader.gif'')))
     = Some False"
  using broken_small_image_shown [of "payload ''idle'' [custom_status] Null"
      "initial_widget ''loader.gif''"]
  by (simp add: payload_def custom_status_def currentActivity_def)

end
